theory Spec2Isabelle
  imports Main "HOL-Library.Word"
begin

unbundle bit_operations_syntax

section \<open>The hash of a text: \<open>sha256String\<close>\<close>

text \<open>
  A Go \<open>string\<close> is a sequence of bytes, and so is an Isabelle \<open>string\<close> (a list of
  8-bit characters). \<open>sha256String\<close> of \<open>handlers.go\<close> feeds the bytes of its argument to
  \<open>crypto/sha256\<close> and prints the digest with \<open>encoding/hex\<close>. Both packages belong to the Go
  standard library; they are written out here (SHA-256 after FIPS 180-4, with Go's 32-bit
  unsigned arithmetic as \<open>32 word\<close>) so that the hash of a concrete text can be computed.
  The sixty-four round constants are given in decimal; the known answer \<open>sha256String_Jane\<close>
  below checks them, together with the rest of the digest, against the hash the tests use.
\<close>

type_synonym byte = "8 word"
type_synonym uint32 = "32 word"
type_synonym digest_state =
  "uint32 \<times> uint32 \<times> uint32 \<times> uint32 \<times> uint32 \<times> uint32 \<times> uint32 \<times> uint32"

definition rotr :: "nat \<Rightarrow> uint32 \<Rightarrow> uint32" where
  "rotr n x = (drop_bit n x) OR (push_bit (32 - n) x)"

definition K256 :: "uint32 list" where
  "K256 = [
  1116352408, 1899447441, 3049323471, 3921009573, 961987163, 1508970993,
  2453635748, 2870763221, 3624381080, 310598401, 607225278, 1426881987,
  1925078388, 2162078206, 2614888103, 3248222580, 3835390401, 4022224774,
  264347078, 604807628, 770255983, 1249150122, 1555081692, 1996064986,
  2554220882, 2821834349, 2952996808, 3210313671, 3336571891, 3584528711,
  113926993, 338241895, 666307205, 773529912, 1294757372, 1396182291,
  1695183700, 1986661051, 2177026350, 2456956037, 2730485921, 2820302411,
  3259730800, 3345764771, 3516065817, 3600352804, 4094571909, 275423344,
  430227734, 506948616, 659060556, 883997877, 958139571, 1322822218,
  1537002063, 1747873779, 1955562222, 2024104815, 2227730452, 2361852424,
  2428436474, 2756734187, 3204031479, 3329325298]"

definition init256 :: digest_state where
  "init256 = (0x6a09e667, 0xbb67ae85, 0x3c6ef372, 0xa54ff53a,
              0x510e527f, 0x9b05688c, 0x1f83d9ab, 0x5be0cd19)"

definition be32 :: "byte list \<Rightarrow> uint32" where
  "be32 bs = foldl (\<lambda>acc b. (push_bit 8 acc) OR (ucast b)) 0 bs"

fun chunks :: "nat \<Rightarrow> nat \<Rightarrow> 'a list \<Rightarrow> 'a list list" where
  "chunks 0 k xs = []"
| "chunks (Suc n) k xs = take k xs # chunks n k (drop k xs)"

definition sigma0 :: "uint32 \<Rightarrow> uint32" where
  "sigma0 x = (rotr 7 x) XOR (rotr 18 x) XOR (drop_bit 3 x)"

definition sigma1 :: "uint32 \<Rightarrow> uint32" where
  "sigma1 x = (rotr 17 x) XOR (rotr 19 x) XOR (drop_bit 10 x)"

fun schedule :: "nat \<Rightarrow> uint32 list \<Rightarrow> uint32 list" where
  "schedule 0 ws = ws"
| "schedule (Suc n) ws =
     (let i = length ws;
          v = sigma1 (ws ! (i - 2)) + ws ! (i - 7) + sigma0 (ws ! (i - 15)) + ws ! (i - 16)
      in schedule n (ws @ [v]))"

fun round256 :: "digest_state \<Rightarrow> uint32 \<times> uint32 \<Rightarrow> digest_state" where
  "round256 (a, b, c, d, e, f, g, h) (k, w) =
     (let t1 = h + ((rotr 6 e) XOR (rotr 11 e) XOR (rotr 25 e))
                 + ((e AND f) XOR ((NOT e) AND g)) + k + w;
          t2 = ((rotr 2 a) XOR (rotr 13 a) XOR (rotr 22 a))
                 + ((a AND b) XOR (a AND c) XOR (b AND c))
      in (t1 + t2, a, b, c, d + t1, e, f, g))"

fun add_state :: "digest_state \<Rightarrow> digest_state \<Rightarrow> digest_state" where
  "add_state (a, b, c, d, e, f, g, h) (a', b', c', d', e', f', g', h') =
     (a + a', b + b', c + c', d + d', e + e', f + f', g + g', h + h')"

definition block256 :: "digest_state \<Rightarrow> byte list \<Rightarrow> digest_state" where
  "block256 hs blk =
     (let ws = schedule 48 (map be32 (chunks 16 4 blk))
      in add_state hs (foldl round256 hs (zip K256 ws)))"

definition pad256 :: "byte list \<Rightarrow> byte list" where
  "pad256 m =
     (let n = length m;
          z = (55 + 64 - n mod 64) mod 64;
          bits = (word_of_nat (8 * n) :: 64 word)
      in m @ [0x80] @ replicate z 0 @ map (\<lambda>i. ucast (drop_bit (8 * (7 - i)) bits)) [0..<8])"

definition bytes32 :: "uint32 \<Rightarrow> byte list" where
  "bytes32 h = [ucast (drop_bit 24 h), ucast (drop_bit 16 h), ucast (drop_bit 8 h), ucast h]"

fun state_bytes :: "digest_state \<Rightarrow> byte list" where
  "state_bytes (a, b, c, d, e, f, g, h) =
     bytes32 a @ bytes32 b @ bytes32 c @ bytes32 d @ bytes32 e @ bytes32 f @ bytes32 g @ bytes32 h"

definition sha256_Sum :: "byte list \<Rightarrow> byte list" where
  "sha256_Sum m =
     (let p = pad256 m
      in state_bytes (foldl block256 init256 (chunks (length p div 64) 64 p)))"

text \<open>\<open>encoding/hex\<close>: two characters of \<open>hextable\<close> per byte, the high nibble first.\<close>

definition hextable :: string where
  "hextable = ''0123456789abcdef''"

definition hex_byte :: "byte \<Rightarrow> string" where
  "hex_byte v = [hextable ! unat (drop_bit 4 v), hextable ! unat (v AND 0x0f)]"

definition hex_EncodeToString :: "byte list \<Rightarrow> string" where
  "hex_EncodeToString src = concat (map hex_byte src)"

definition string_bytes :: "string \<Rightarrow> byte list" where
  "string_bytes s = map of_char s"

definition sha256String :: "string \<Rightarrow> string" where
  "sha256String s = hex_EncodeToString (sha256_Sum (string_bytes s))"

text \<open>
  What "lowercase hexadecimal" means, said without the table: the digit of a value below ten
  is the character \<open>0\<close> moved up by the value, the digit of a larger one is the character
  \<open>a\<close> moved up by the value less ten; a byte is printed as the digit of its quotient by
  sixteen followed by the digit of its remainder.
\<close>

definition lower_hex_digit :: "nat \<Rightarrow> char" where
  "lower_hex_digit n = (if n < 10 then char_of (48 + n) else char_of (97 + (n - 10)))"

definition lower_hex :: "byte list \<Rightarrow> string" where
  "lower_hex bs =
     concat (map (\<lambda>b. [lower_hex_digit (unat b div 16), lower_hex_digit (unat b mod 16)]) bs)"

section \<open>The two tables\<close>

text \<open>
  \<open>schema.sql\<close>: table \<open>user\<close> (\<open>user_id\<close> primary key, \<open>name\<close> not null, \<open>credit\<close> a
  nullable BIGINT) and table \<open>hash_text\<close> (\<open>hash\<close> primary key, \<open>text\<close> nullable). A table is
  the list of its rows; a NULL is \<open>None\<close>. The handlers reach the tables through the global
  handle \<open>db\<close>, here the state that every function takes and returns, together with what
  \<open>log.Printf\<close> has written. Keys are compared as the strings they are (every key this program
  writes has the full 64 characters of the column, see \<open>length_sha256String\<close>).
\<close>

record user_row =
  row_user_id :: string
  row_name :: string
  row_credit :: "int option"

record hash_text_row =
  row_hash :: string
  row_text :: "string option"

datatype sql_error = ErrNoRows | ErrOther string

datatype log_entry =
    LogUserLookupFailed sql_error
  | LogReadBodyFailed string
  | LogInsertFailed string sql_error
  | LogDebitFailed string sql_error
  | LogTextLookupFailed sql_error
  | LogEncodeFailed string

record state =
  user_tbl :: "user_row list"
  hash_text_tbl :: "hash_text_row list"
  logged :: "log_entry list"

definition log_Printf :: "log_entry \<Rightarrow> state \<Rightarrow> state" where
  "log_Printf e st = st\<lparr>logged := logged st @ [e]\<rparr>"

text \<open>
  The six SQL statements of \<open>handlers.go\<close>. Any of them can fail in the driver or the server
  (a storage fault); which ones do, during one request, is given by \<open>db_fault\<close>: the error the
  statement meets, if any. \<open>json.Unmarshal\<close> into a \<open>textDocument\<close> belongs to the Go
  standard library and is a parameter as well: the \<open>Text\<close> it decodes from a body, or \<open>None\<close>
  when it returns an error.
\<close>

datatype stmt =
    SelectOneFromUser
  | SelectNameCredit
  | SelectCredit
  | InsertHashText
  | UpdateCredit
  | SelectText

record env =
  db_fault :: "stmt \<Rightarrow> string option"
  json_Unmarshal :: "string \<Rightarrow> string option"

definition find_user :: "string \<Rightarrow> state \<Rightarrow> user_row option" where
  "find_user userID st = find (\<lambda>r. row_user_id r = userID) (user_tbl st)"

definition find_text :: "string \<Rightarrow> state \<Rightarrow> hash_text_row option" where
  "find_text h st = find (\<lambda>r. row_hash r = h) (hash_text_tbl st)"

text \<open>\<open>SELECT 1 FROM "user" WHERE user_id = $1\<close>, scanned into a \<open>bool\<close>.\<close>

definition query_user_exists :: "env \<Rightarrow> string \<Rightarrow> state \<Rightarrow> sql_error + bool" where
  "query_user_exists env userID st =
     (case db_fault env SelectOneFromUser of
        Some m \<Rightarrow> Inl (ErrOther m)
      | None \<Rightarrow>
          (case find_user userID st of
             None \<Rightarrow> Inl ErrNoRows
           | Some r \<Rightarrow> Inr True))"

text \<open>
  \<open>SELECT name, credit FROM "user" WHERE user_id = $1\<close>, scanned into a \<open>string\<close> and an
  \<open>int\<close>: \<open>Scan\<close> refuses to put a NULL into an \<open>int\<close>.
\<close>

definition query_name_credit :: "env \<Rightarrow> string \<Rightarrow> state \<Rightarrow> sql_error + (string \<times> int)" where
  "query_name_credit env userID st =
     (case db_fault env SelectNameCredit of
        Some m \<Rightarrow> Inl (ErrOther m)
      | None \<Rightarrow>
          (case find_user userID st of
             None \<Rightarrow> Inl ErrNoRows
           | Some r \<Rightarrow>
               (case row_credit r of
                  None \<Rightarrow> Inl (ErrOther ''converting NULL to int is unsupported'')
                | Some c \<Rightarrow> Inr (row_name r, c))))"

text \<open>\<open>SELECT credit FROM "user" WHERE user_id = $1\<close>, scanned into an \<open>int\<close>.\<close>

definition query_credit :: "env \<Rightarrow> string \<Rightarrow> state \<Rightarrow> sql_error + int" where
  "query_credit env userID st =
     (case db_fault env SelectCredit of
        Some m \<Rightarrow> Inl (ErrOther m)
      | None \<Rightarrow>
          (case find_user userID st of
             None \<Rightarrow> Inl ErrNoRows
           | Some r \<Rightarrow>
               (case row_credit r of
                  None \<Rightarrow> Inl (ErrOther ''converting NULL to int is unsupported'')
                | Some c \<Rightarrow> Inr c)))"

text \<open>\<open>SELECT text FROM hash_text WHERE hash = $1\<close>, scanned into a \<open>string\<close>.\<close>

definition query_text :: "env \<Rightarrow> string \<Rightarrow> state \<Rightarrow> sql_error + string" where
  "query_text env h st =
     (case db_fault env SelectText of
        Some m \<Rightarrow> Inl (ErrOther m)
      | None \<Rightarrow>
          (case find_text h st of
             None \<Rightarrow> Inl ErrNoRows
           | Some r \<Rightarrow>
               (case row_text r of
                  None \<Rightarrow> Inl (ErrOther ''converting NULL to string is unsupported'')
                | Some t \<Rightarrow> Inr t)))"

text \<open>
  \<open>INSERT INTO hash_text (hash, text) VALUES ($1, $2) ON CONFLICT DO NOTHING\<close>: a row whose
  hash is already in the table is left alone, and that is no error.
\<close>

definition exec_insert_hash_text :: "env \<Rightarrow> string \<Rightarrow> string \<Rightarrow> state \<Rightarrow> sql_error + state" where
  "exec_insert_hash_text env h t st =
     (case db_fault env InsertHashText of
        Some m \<Rightarrow> Inl (ErrOther m)
      | None \<Rightarrow>
          (if h \<in> set (map row_hash (hash_text_tbl st)) then Inr st
           else Inr (st\<lparr>hash_text_tbl :=
                  hash_text_tbl st @ [\<lparr>row_hash = h, row_text = Some t\<rparr>]\<rparr>)))"

text \<open>
  \<open>UPDATE "user" SET credit = GREATEST(0, credit - 1) WHERE user_id = $1\<close>. \<open>GREATEST\<close>
  ignores a NULL argument, so a NULL credit becomes 0; \<open>credit - 1\<close> below the least BIGINT is
  an error of the statement, which then changes nothing. A user id that matches no row updates
  no row, without error.
\<close>

definition BIGINT_MIN :: int where
  "BIGINT_MIN = - (2 ^ 63)"

definition greatest_0_credit_minus_1 :: "int option \<Rightarrow> int option" where
  "greatest_0_credit_minus_1 credit =
     (case credit of None \<Rightarrow> Some 0 | Some c \<Rightarrow> Some (max 0 (c - 1)))"

definition credit_underflows :: "user_row \<Rightarrow> bool" where
  "credit_underflows r = (case row_credit r of None \<Rightarrow> False | Some c \<Rightarrow> c - 1 < BIGINT_MIN)"

definition debit_row :: "string \<Rightarrow> user_row \<Rightarrow> user_row" where
  "debit_row userID r =
     (if row_user_id r = userID
      then r\<lparr>row_credit := greatest_0_credit_minus_1 (row_credit r)\<rparr>
      else r)"

definition exec_update_credit :: "env \<Rightarrow> string \<Rightarrow> state \<Rightarrow> sql_error + state" where
  "exec_update_credit env userID st =
     (case db_fault env UpdateCredit of
        Some m \<Rightarrow> Inl (ErrOther m)
      | None \<Rightarrow>
          (if list_ex (\<lambda>r. row_user_id r = userID \<and> credit_underflows r) (user_tbl st)
           then Inl (ErrOther ''bigint out of range'')
           else Inr (st\<lparr>user_tbl := map (debit_row userID) (user_tbl st)\<rparr>)))"

section \<open>Requests and responses\<close>

text \<open>
  Of a request the handlers read the header \<open>X-HashText-User-ID\<close> (absent, or its value),
  the body (what \<open>ioutil.ReadAll\<close> returns: an error or the bytes) and the variables that
  \<open>mux\<close> took from the path. Of a response they set the status, the \<open>Content-Type\<close> and the
  body. A JSON body is kept as the object that \<open>json.Marshal\<close> prints: its keys, in order, with
  their values.
\<close>

record request =
  header_user_id :: "string option"
  req_body :: "string + string"
  mux_vars :: "string \<rightharpoonup> string"

definition Header_Get :: "request \<Rightarrow> string" where
  "Header_Get r = (case header_user_id r of None \<Rightarrow> [] | Some v \<Rightarrow> v)"

definition mux_Vars :: "request \<Rightarrow> string \<Rightarrow> string" where
  "mux_Vars r k = (case mux_vars r k of None \<Rightarrow> [] | Some v \<Rightarrow> v)"

datatype json_value = JString string | JNumber int

datatype body = NoBody | TextBody string | JsonBody "(string \<times> json_value) list"

record response =
  status :: nat
  content_type :: "string option"
  resp_body :: body

definition StatusOK :: nat where "StatusOK = 200"
definition StatusBadRequest :: nat where "StatusBadRequest = 400"
definition StatusUnauthorized :: nat where "StatusUnauthorized = 401"
definition StatusPaymentRequired :: nat where "StatusPaymentRequired = 402"
definition StatusNotFound :: nat where "StatusNotFound = 404"
definition StatusInternalServerError :: nat where "StatusInternalServerError = 500"

fun json_keys :: "body \<Rightarrow> string list" where
  "json_keys (JsonBody kvs) = map fst kvs"
| "json_keys NoBody = []"
| "json_keys (TextBody t) = []"

definition WriteHeader :: "nat \<Rightarrow> response" where
  "WriteHeader code = \<lparr>status = code, content_type = None, resp_body = NoBody\<rparr>"

definition sendErrorMessage :: "string \<Rightarrow> nat \<Rightarrow> response" where
  "sendErrorMessage msg code =
     \<lparr>status = code, content_type = Some ''text/plain; charset=UTF-8'', resp_body = TextBody msg\<rparr>"

section \<open>The JSON documents\<close>

text \<open>
  The three document types of \<open>handlers.go\<close> are Go structs whose fields carry the tags
  written in the source: \<open>UserID\<close> has the raw tag \<open>json:user_id\<close>, \<open>Text\<close> has \<open>json:text\<close>
  and \<open>Hash\<close> has \<open>json:hash\<close>; \<open>Name\<close> and \<open>Credit\<close> have none. A struct value is the list
  of its fields: Go name, tag, value.
\<close>

type_synonym go_struct = "(string \<times> string \<times> json_value) list"

definition userDocument :: "string \<Rightarrow> string \<Rightarrow> int \<Rightarrow> go_struct" where
  "userDocument userID name credit =
     [(''UserID'', ''json:user_id'', JString userID),
      (''Name'', [], JString name),
      (''Credit'', [], JNumber credit)]"

definition textDocument :: "string \<Rightarrow> go_struct" where
  "textDocument t = [(''Text'', ''json:text'', JString t)]"

definition hashDocument :: "string \<Rightarrow> go_struct" where
  "hashDocument h = [(''Hash'', ''json:hash'', JString h)]"

text \<open>
  \<open>json.Marshal\<close> names a field after the \<open>json\<close> key of its tag, which it reads with
  \<open>reflect.StructTag.Get\<close>. That function follows the convention \<open>key:"value"\<close>: after the
  colon it wants a double quote, and where there is none the tag has no such key. The loop
  of \<open>StructTag.Lookup\<close> is transcribed below; of \<open>strconv.Unquote\<close> only the case of a
  value without a backslash or a line break is written out (any other value is reported
  as absent; no tag of this program has one).
\<close>

definition tag_key_char :: "char \<Rightarrow> bool" where
  "tag_key_char c \<longleftrightarrow>
     (32::nat) < of_char c \<and> c \<noteq> CHR '':'' \<and> c \<noteq> CHR 0x22 \<and> of_char c \<noteq> (127::nat)"

fun quoted_end :: "string \<Rightarrow> nat \<Rightarrow> nat option" where
  "quoted_end [] i = None"
| "quoted_end (c # cs) i =
     (if c = CHR 0x22 then Some i
      else if c = CHR 0x5C then (case cs of [] \<Rightarrow> None | c' # cs' \<Rightarrow> quoted_end cs' (i + 2))
      else quoted_end cs (i + 1))"

definition strconv_Unquote :: "string \<Rightarrow> string option" where
  "strconv_Unquote q =
     (let inner = butlast (tl q)
      in if CHR 0x5C \<in> set inner \<or> CHR 0x0A \<in> set inner then None else Some inner)"

function StructTag_Lookup :: "string \<Rightarrow> string \<Rightarrow> string option" where
  "StructTag_Lookup tag key =
     (let tag1 = dropWhile (\<lambda>c. c = CHR '' '') tag in
      if tag1 = [] then None
      else
        let i = length (takeWhile tag_key_char tag1) in
        if i = 0 \<or> length tag1 \<le> i + 1 \<or> tag1 ! i \<noteq> CHR '':'' \<or> tag1 ! (i + 1) \<noteq> CHR 0x22
        then None
        else
          let name = take i tag1; tag2 = drop (i + 1) tag1 in
          (case quoted_end (drop 1 tag2) 1 of
             None \<Rightarrow> None
           | Some j \<Rightarrow>
               if key = name then strconv_Unquote (take (j + 1) tag2)
               else StructTag_Lookup (drop (j + 1) tag2) key))"
  by pat_completeness auto
termination
proof (relation "measure (\<lambda>(tag, key). length tag)", goal_cases)
  case 1
  show ?case by simp
next
  case (2 tag key tag1 i name tag2 j)
  have "length tag1 \<le> length tag"
    using 2(1) length_dropWhile_le [of "\<lambda>c. c = CHR '' ''" tag] by simp
  moreover have "i + 1 < length tag1"
    using 2(4) by auto
  ultimately show ?case
    using 2(6) by simp
qed

definition StructTag_Get :: "string \<Rightarrow> string \<Rightarrow> string" where
  "StructTag_Get tag key = (case StructTag_Lookup tag key of None \<Rightarrow> [] | Some v \<Rightarrow> v)"

text \<open>
  \<open>encoding/json\<close>: a field tagged \<open>-\<close> is left out; the name is the tag up to its first
  comma when that is a valid name, and the Go name of the field otherwise. (Of the letters
  and digits that \<open>isValidTag\<close> accepts, the ASCII ones are written out.)
\<close>

definition is_letter_or_digit :: "char \<Rightarrow> bool" where
  "is_letter_or_digit c \<longleftrightarrow>
     (let n = (of_char c :: nat)
      in (48 \<le> n \<and> n \<le> 57) \<or> (65 \<le> n \<and> n \<le> 90) \<or> (97 \<le> n \<and> n \<le> 122))"

definition isValidTag :: "string \<Rightarrow> bool" where
  "isValidTag s \<longleftrightarrow>
     s \<noteq> [] \<and>
     list_all (\<lambda>c. c \<in> set ''!#$%&()*+-./:;<=>?@[]^_{|}~ '' \<or> is_letter_or_digit c) s"

definition json_field_name :: "string \<Rightarrow> string \<Rightarrow> string option" where
  "json_field_name fname ftag =
     (let tag = StructTag_Get ftag ''json'' in
      if tag = ''-'' then None
      else
        let name = takeWhile (\<lambda>c. c \<noteq> CHR '','') tag
        in Some (if isValidTag name then name else fname))"

fun json_fields :: "go_struct \<Rightarrow> (string \<times> json_value) list" where
  "json_fields [] = []"
| "json_fields ((fname, ftag, v) # fs) =
     (case json_field_name fname ftag of
        None \<Rightarrow> json_fields fs
      | Some k \<Rightarrow> (k, v) # json_fields fs)"

text \<open>
  \<open>json.Marshal\<close> returns an error for values it cannot encode; a struct of strings and
  integers is not among them, so the error branch of \<open>sendJSONResponse\<close> is kept in the
  model but never taken.
\<close>

definition json_Marshal :: "go_struct \<Rightarrow> string + (string \<times> json_value) list" where
  "json_Marshal d = Inr (json_fields d)"

definition sendJSONResponse :: "go_struct \<Rightarrow> state \<Rightarrow> state \<times> response" where
  "sendJSONResponse d st =
     (case json_Marshal d of
        Inl e \<Rightarrow> (log_Printf (LogEncodeFailed e) st, WriteHeader StatusInternalServerError)
      | Inr b \<Rightarrow>
          (st, \<lparr>status = StatusOK,
                content_type = Some ''application/json; charset=UTF-8'',
                resp_body = JsonBody b\<rparr>))"

section \<open>The handlers\<close>

type_synonym handler = "env \<Rightarrow> request \<Rightarrow> state \<Rightarrow> state \<times> response"

definition userIsAuthorized :: "env \<Rightarrow> request \<Rightarrow> state \<Rightarrow> bool \<times> state" where
  "userIsAuthorized env r st =
     (let userID = Header_Get r in
      if userID = [] then (False, st)
      else
        (case query_user_exists env userID st of
           Inl ErrNoRows \<Rightarrow> (False, st)
         | Inl (ErrOther m) \<Rightarrow> (False, log_Printf (LogUserLookupFailed (ErrOther m)) st)
         | Inr found \<Rightarrow> (found, st)))"

definition wrapHandler :: "handler \<Rightarrow> handler" where
  "wrapHandler h env r st =
     (case userIsAuthorized env r st of
        (False, st1) \<Rightarrow> (st1, WriteHeader StatusUnauthorized)
      | (True, st1) \<Rightarrow> h env r st1)"

definition userHandler :: handler where
  "userHandler env r st =
     (let userID = Header_Get r in
      case query_name_credit env userID st of
        Inl ErrNoRows \<Rightarrow> (st, WriteHeader StatusNotFound)
      | Inl (ErrOther m) \<Rightarrow>
          (log_Printf (LogUserLookupFailed (ErrOther m)) st, WriteHeader StatusInternalServerError)
      | Inr (name, credit) \<Rightarrow> sendJSONResponse (userDocument userID name credit) st)"

definition userHasCredit :: "env \<Rightarrow> string \<Rightarrow> state \<Rightarrow> bool \<times> state" where
  "userHasCredit env userID st =
     (case query_credit env userID st of
        Inl e \<Rightarrow> (False, log_Printf (LogUserLookupFailed e) st)
      | Inr credit \<Rightarrow> (0 < credit, st))"

definition insertText :: "env \<Rightarrow> string \<Rightarrow> string \<Rightarrow> string \<Rightarrow> state \<Rightarrow> state" where
  "insertText env t h userID st =
     (case exec_insert_hash_text env h t st of
        Inl e \<Rightarrow> log_Printf (LogInsertFailed h e) st
      | Inr st1 \<Rightarrow>
          (case exec_update_credit env userID st1 of
             Inl e \<Rightarrow> log_Printf (LogDebitFailed userID e) st1
           | Inr st2 \<Rightarrow> st2))"

definition textHandler :: handler where
  "textHandler env r st =
     (let userID = Header_Get r in
      case userHasCredit env userID st of
        (False, st1) \<Rightarrow>
          (st1, sendErrorMessage ''You are out of credit. Please pay us more money.''
                  StatusPaymentRequired)
      | (True, st1) \<Rightarrow>
          (case req_body r of
             Inl e \<Rightarrow> (log_Printf (LogReadBodyFailed e) st1, WriteHeader StatusInternalServerError)
           | Inr b \<Rightarrow>
               (case json_Unmarshal env b of
                  None \<Rightarrow>
                    (st1, sendErrorMessage ''Could not decode the request body as JSON''
                            StatusBadRequest)
                | Some t \<Rightarrow>
                    (let h = sha256String t;
                         st2 = insertText env t h userID st1
                     in sendJSONResponse (hashDocument h) st2))))"

definition textHashHandler :: handler where
  "textHashHandler env r st =
     (case query_text env (mux_Vars r ''hash'') st of
        Inl ErrNoRows \<Rightarrow> (st, WriteHeader StatusNotFound)
      | Inl (ErrOther m) \<Rightarrow>
          (log_Printf (LogTextLookupFailed (ErrOther m)) st, WriteHeader StatusInternalServerError)
      | Inr t \<Rightarrow> sendJSONResponse (textDocument t) st)"

text \<open>
  \<open>makeRouter\<close>: three routes, each handler behind \<open>wrapHandler\<close>. Matching a method and a
  path against the routes is the work of \<open>mux\<close>; a request arrives here with the route it
  matched, and the third route leaves the segment it captured in the variable \<open>hash\<close>.
\<close>

datatype route = GET_user_me | POST_text | GET_text_hash string

fun makeRouter :: "route \<Rightarrow> handler" where
  "makeRouter GET_user_me env r st = wrapHandler userHandler env r st"
| "makeRouter POST_text env r st = wrapHandler textHandler env r st"
| "makeRouter (GET_text_hash h) env r st =
     wrapHandler textHashHandler env (r\<lparr>mux_vars := (mux_vars r)(''hash'' \<mapsto> h)\<rparr>) st"

declare makeRouter.simps [simp del]

section \<open>The fixtures of the tests\<close>

text \<open>
  \<open>populateTables\<close> of the test file: Jane and Xiomara with a credit of 1000000, Petra with
  none, each under the SHA-256 of her name; both tables otherwise empty. The requests are
  those of \<open>TestTextHandler\<close> and \<open>TestTextHashHandler\<close>; the decoder knows the one body the
  test posts.
\<close>

definition jane_id :: string where
  "jane_id = ''4f23798d92708359b734a18172c9c864f1d48044a754115a0d4b843bca3a5332''"

definition xiomara_id :: string where
  "xiomara_id = ''1cc606cf881c5052db3d6205e7be809a9abd82e171d4a395ae1092c7c33a7b34''"

definition petra_id :: string where
  "petra_id = ''d2bfbb716eec9e29eda06f8a0f6b2b2a522f1eaab71f2228f33aad493ce2eebd''"

definition fixture :: state where
  "fixture =
     \<lparr>user_tbl =
        [\<lparr>row_user_id = jane_id, row_name = ''Jane'', row_credit = Some 1000000\<rparr>,
         \<lparr>row_user_id = xiomara_id, row_name = ''Xiomara'', row_credit = Some 1000000\<rparr>,
         \<lparr>row_user_id = petra_id, row_name = ''Petra'', row_credit = Some 0\<rparr>],
      hash_text_tbl = [],
      logged = []\<rparr>"

definition test_text :: string where
  "test_text = ''test text handler''"

definition test_body :: string where
  "test_body = ''{\"text\":\"test text handler\"}''"

definition test_env :: "(stmt \<Rightarrow> string option) \<Rightarrow> env" where
  "test_env f =
     \<lparr>db_fault = f,
      json_Unmarshal = (\<lambda>b. if b = test_body then Some test_text else None)\<rparr>"

definition no_fault :: "stmt \<Rightarrow> string option" where
  "no_fault q = None"

definition fault_at :: "stmt \<Rightarrow> stmt \<Rightarrow> string option" where
  "fault_at q0 q = (if q = q0 then Some ''connection refused'' else None)"

definition test_request :: "string option \<Rightarrow> string \<Rightarrow> request" where
  "test_request hdr b = \<lparr>header_user_id = hdr, req_body = Inr b, mux_vars = Map.empty\<rparr>"

section \<open>Facts about the hash\<close>

lemma length_state_bytes: "length (state_bytes st) = 32"
  by (induction st rule: state_bytes.induct) (simp add: bytes32_def)

lemma length_sha256_Sum: "length (sha256_Sum m) = 32"
  by (simp add: sha256_Sum_def Let_def length_state_bytes)

lemma length_hex_EncodeToString: "length (hex_EncodeToString bs) = 2 * length bs"
  by (induction bs) (simp_all add: hex_EncodeToString_def hex_byte_def)

lemma length_sha256String: "length (sha256String s) = 64"
  by (simp add: sha256String_def length_hex_EncodeToString length_sha256_Sum)

lemma sha256String_not_empty: "sha256String s \<noteq> []"
  using length_sha256String [of s] by auto

lemma sha256String_Jane: "sha256String ''Jane'' = jane_id"
  unfolding jane_id_def by code_simp

lemma hextable_digits: "\<forall>n \<in> set [0..<16]. hextable ! n = lower_hex_digit n"
  by code_simp

lemma hextable_digit: "n < 16 \<Longrightarrow> hextable ! n = lower_hex_digit n"
  using hextable_digits by simp

lemma hi_nibble: "unat (drop_bit 4 (v::byte)) = unat v div 16"
  by (simp add: unat_drop_bit_eq drop_bit_eq_div unat_div)

lemma lo_nibble: "unat ((v::byte) AND 0x0f) = unat v mod 16"
proof -
  have "(v AND 0x0f) = take_bit 4 v"
    by (simp add: take_bit_eq_mask mask_eq_exp_minus_1)
  then show ?thesis by (simp add: take_bit_eq_mod unat_mod)
qed

lemma hex_byte_lower: "hex_byte v = [lower_hex_digit (unat v div 16), lower_hex_digit (unat v mod 16)]"
proof -
  have "unat v < 256" using unsigned_less [of v, where 'a = nat] by simp
  then have "unat v div 16 < 16" by simp
  then show ?thesis by (simp add: hex_byte_def hi_nibble lo_nibble hextable_digit)
qed

lemma hex_EncodeToString_lower: "hex_EncodeToString bs = lower_hex bs"
  by (induction bs) (simp_all add: hex_EncodeToString_def lower_hex_def hex_byte_lower)

lemma lower_hex_digit_in: "n < 16 \<Longrightarrow> lower_hex_digit n \<in> set hextable"
  using hextable_digit [of n] nth_mem [of n hextable] by (simp add: hextable_def)

lemma hex_chars: "set (hex_EncodeToString bs) \<subseteq> set hextable"
proof -
  have "set (hex_byte v) \<subseteq> set hextable" for v
  proof -
    have "unat v < 256" using unsigned_less [of v, where 'a = nat] by simp
    then have "unat v div 16 < 16" by simp
    then show ?thesis by (simp add: hex_byte_lower lower_hex_digit_in)
  qed
  then show ?thesis by (auto simp: hex_EncodeToString_def)
qed

section \<open>Facts about the handlers\<close>

lemma log_Printf_tables [simp]:
  "user_tbl (log_Printf e st) = user_tbl st"
  "hash_text_tbl (log_Printf e st) = hash_text_tbl st"
  by (simp_all add: log_Printf_def)

lemma userIsAuthorized_tables:
  "user_tbl (snd (userIsAuthorized env r st)) = user_tbl st \<and>
   hash_text_tbl (snd (userIsAuthorized env r st)) = hash_text_tbl st"
  by (simp add: userIsAuthorized_def Let_def split: sum.splits sql_error.splits)

lemma userIsAuthorized_True:
  "fst (userIsAuthorized env r st) \<Longrightarrow> snd (userIsAuthorized env r st) = st"
  by (auto simp: userIsAuthorized_def Let_def split: sum.splits sql_error.splits if_splits)

lemma userIsAuthorized_iff:
  "fst (userIsAuthorized env r st) \<longleftrightarrow>
     Header_Get r \<noteq> [] \<and> db_fault env SelectOneFromUser = None \<and>
     find_user (Header_Get r) st \<noteq> None"
  by (auto simp: userIsAuthorized_def query_user_exists_def Let_def
      split: sum.splits sql_error.splits if_splits option.splits)

lemma wrapHandler_authorized:
  "fst (userIsAuthorized env r st) \<Longrightarrow> wrapHandler h env r st = h env r st"
  using userIsAuthorized_True [of env r st]
  by (cases "userIsAuthorized env r st") (auto simp: wrapHandler_def)

lemma wrapHandler_unauthorized:
  "\<not> fst (userIsAuthorized env r st) \<Longrightarrow>
   wrapHandler h env r st = (snd (userIsAuthorized env r st), WriteHeader StatusUnauthorized)"
  by (cases "userIsAuthorized env r st") (auto simp: wrapHandler_def)

lemma userHasCredit_tables:
  "user_tbl (snd (userHasCredit env u st)) = user_tbl st \<and>
   hash_text_tbl (snd (userHasCredit env u st)) = hash_text_tbl st"
  by (simp add: userHasCredit_def split: sum.splits)

lemma userHasCredit_True:
  "fst (userHasCredit env u st) \<Longrightarrow> snd (userHasCredit env u st) = st"
  by (auto simp: userHasCredit_def split: sum.splits)

lemma userHasCredit_iff:
  "fst (userHasCredit env u st) \<longleftrightarrow>
     db_fault env SelectCredit = None \<and>
     (\<exists>row c. find_user u st = Some row \<and> row_credit row = Some c \<and> 0 < c)"
  by (auto simp: userHasCredit_def query_credit_def split: sum.splits option.splits)

lemma textHandler_no_credit:
  "\<not> fst (userHasCredit env (Header_Get r) st) \<Longrightarrow>
   textHandler env r st =
     (snd (userHasCredit env (Header_Get r) st),
      sendErrorMessage ''You are out of credit. Please pay us more money.'' StatusPaymentRequired)"
  by (cases "userHasCredit env (Header_Get r) st") (auto simp: textHandler_def Let_def)

lemma textHandler_credit:
  "fst (userHasCredit env (Header_Get r) st) \<Longrightarrow> req_body r = Inr b \<Longrightarrow>
   json_Unmarshal env b = Some t \<Longrightarrow>
   textHandler env r st =
     sendJSONResponse (hashDocument (sha256String t))
       (insertText env t (sha256String t) (Header_Get r) st)"
  using userHasCredit_True [of env "Header_Get r" st]
  by (cases "userHasCredit env (Header_Get r) st") (auto simp: textHandler_def Let_def)

lemma json_hashDocument: "json_fields (hashDocument h) = [(''Hash'', JString h)]"
  by (simp add: hashDocument_def json_field_name_def StructTag_Get_def Let_def tag_key_char_def isValidTag_def)

lemma json_textDocument: "json_fields (textDocument h) = [(''Text'', JString h)]"
  by (simp add: textDocument_def json_field_name_def StructTag_Get_def Let_def tag_key_char_def isValidTag_def)

lemma json_userDocument: "json_fields (userDocument u n c) = [(''UserID'', JString u), (''Name'', JString n), (''Credit'', JNumber c)]"
  by (simp add: userDocument_def json_field_name_def StructTag_Get_def Let_def tag_key_char_def isValidTag_def)

lemma insertText_user_tbl_fault:
  "db_fault env InsertHashText = Some m \<Longrightarrow>
   insertText env t h u st = log_Printf (LogInsertFailed h (ErrOther m)) st"
  by (simp add: insertText_def exec_insert_hash_text_def)

lemma sendJSONResponse_snd:
  "snd (sendJSONResponse d st) =
     \<lparr>status = 200, content_type = Some ''application/json; charset=UTF-8'',
      resp_body = JsonBody (json_fields d)\<rparr>"
  by (simp add: sendJSONResponse_def json_Marshal_def StatusOK_def)

lemma sendJSONResponse_fst: "fst (sendJSONResponse d st) = st"
  by (simp add: sendJSONResponse_def json_Marshal_def)

lemma out_of_credit_response:
  "sendErrorMessage ''You are out of credit. Please pay us more money.'' StatusPaymentRequired =
     \<lparr>status = 402, content_type = Some ''text/plain; charset=UTF-8'',
      resp_body = TextBody ''You are out of credit. Please pay us more money.''\<rparr>"
  by (simp add: sendErrorMessage_def StatusPaymentRequired_def)


lemmas fixture_defs =
  fixture_def jane_id_def xiomara_id_def petra_id_def test_env_def no_fault_def fault_at_def
  test_request_def test_body_def test_text_def find_user_def find_text_def Header_Get_def


lemma find_map_same_key:
  "(\<And>x. P (f x) = P x) \<Longrightarrow> find P (map f xs) = map_option f (find P xs)"
  by (induction xs) simp_all

lemma find_key_unique:
  assumes "distinct (map f xs)" and "find (\<lambda>r. f r = k) xs = Some row"
    and "r \<in> set xs" and "f r = k"
  shows "r = row"
proof -
  from assms(2) have "row \<in> set xs" and "f row = k"
    by (auto simp: find_Some_iff)
  moreover from assms(1) have "inj_on f (set xs)"
    by (simp add: distinct_map)
  ultimately show ?thesis
    using assms(3,4) by (auto dest: inj_onD)
qed

lemma filter_key_unique:
  "distinct (map f xs) \<Longrightarrow> x \<in> set xs \<Longrightarrow> filter (\<lambda>r. f r = f x) xs = [x]"
proof (induction xs)
  case Nil
  then show ?case by simp
next
  case (Cons a xs)
  show ?case
  proof (cases "a = x")
    case True
    have "filter (\<lambda>r. f r = f x) xs = []"
      using Cons.prems(1) True by (auto simp: filter_empty_conv) (metis imageI)
    then show ?thesis using True by simp
  next
    case False
    then have "x \<in> set xs" using Cons.prems(2) by simp
    moreover have "f a \<noteq> f x"
      using Cons.prems(1) \<open>x \<in> set xs\<close> by auto
    ultimately show ?thesis using Cons by simp
  qed
qed

lemma exec_insert_hash_text_ok:
  "db_fault env InsertHashText = None \<Longrightarrow>
   exec_insert_hash_text env h t st =
     Inr (st\<lparr>hash_text_tbl :=
            (if h \<in> set (map row_hash (hash_text_tbl st)) then hash_text_tbl st
             else hash_text_tbl st @ [\<lparr>row_hash = h, row_text = Some t\<rparr>])\<rparr>)"
  by (simp add: exec_insert_hash_text_def)

lemma insertText_hash_text_tbl:
  "db_fault env InsertHashText = None \<Longrightarrow>
   hash_text_tbl (insertText env t h u st) =
     (if h \<in> set (map row_hash (hash_text_tbl st)) then hash_text_tbl st
      else hash_text_tbl st @ [\<lparr>row_hash = h, row_text = Some t\<rparr>])"
  by (simp add: insertText_def exec_insert_hash_text_ok exec_update_credit_def
      split: option.splits sum.splits)

lemma no_underflow:
  assumes pk: "distinct (map row_user_id (user_tbl st))"
    and row: "find_user u st = Some row" and cr: "row_credit row = Some c"
    and rng: "BIGINT_MIN < c"
  shows "\<not> list_ex (\<lambda>r. row_user_id r = u \<and> credit_underflows r) (user_tbl st)"
proof
  assume "list_ex (\<lambda>r. row_user_id r = u \<and> credit_underflows r) (user_tbl st)"
  then obtain r where r: "r \<in> set (user_tbl st)" "row_user_id r = u" "credit_underflows r"
    by (auto simp: list_ex_iff)
  have "r = row"
    using find_key_unique [OF pk _ r(1,2)] row by (simp add: find_user_def)
  then show False
    using r(3) cr rng by (simp add: credit_underflows_def)
qed

lemma insertText_ok:
  assumes pk: "distinct (map row_user_id (user_tbl st))"
    and ins: "db_fault env InsertHashText = None"
    and upd: "db_fault env UpdateCredit = None"
    and row: "find_user u st = Some row" and cr: "row_credit row = Some c"
    and rng: "BIGINT_MIN < c"
  shows "insertText env t h u st =
           st\<lparr>hash_text_tbl :=
                (if h \<in> set (map row_hash (hash_text_tbl st)) then hash_text_tbl st
                 else hash_text_tbl st @ [\<lparr>row_hash = h, row_text = Some t\<rparr>]),
              user_tbl := map (debit_row u) (user_tbl st)\<rparr>"
proof -
  let ?st1 = "st\<lparr>hash_text_tbl :=
                (if h \<in> set (map row_hash (hash_text_tbl st)) then hash_text_tbl st
                 else hash_text_tbl st @ [\<lparr>row_hash = h, row_text = Some t\<rparr>])\<rparr>"
  have u: "user_tbl ?st1 = user_tbl st" by simp
  have "\<not> list_ex (\<lambda>r. row_user_id r = u \<and> credit_underflows r) (user_tbl ?st1)"
    using no_underflow [OF pk row cr rng] by simp
  then have "exec_update_credit env u ?st1 = Inr (?st1\<lparr>user_tbl := map (debit_row u) (user_tbl ?st1)\<rparr>)"
    using upd unfolding exec_update_credit_def by simp
  then show ?thesis
    by (simp add: insertText_def exec_insert_hash_text_ok [OF ins])
qed

lemma find_user_debited:
  "find_user v (st\<lparr>user_tbl := map (debit_row u) (user_tbl st)\<rparr>) =
     map_option (debit_row u) (find_user v st)"
  unfolding find_user_def
  by (simp add: find_map_same_key debit_row_def)

lemma BIGINT_MIN_neg: "0 < c \<Longrightarrow> BIGINT_MIN < c"
  by (simp add: BIGINT_MIN_def)

lemma post_text_ok:
  assumes hdr: "header_user_id r = Some u" and ne: "u \<noteq> []"
    and auth: "db_fault env SelectOneFromUser = None"
    and sel: "db_fault env SelectCredit = None"
    and row: "find_user u st = Some row" and cr: "row_credit row = Some c" and pos: "0 < c"
    and body: "req_body r = Inr b" and dec: "json_Unmarshal env b = Some s"
  shows "makeRouter POST_text env r st =
           (insertText env s (sha256String s) u st,
            \<lparr>status = 200, content_type = Some ''application/json; charset=UTF-8'',
             resp_body = JsonBody [(''Hash'', JString (sha256String s))]\<rparr>)"
proof -
  have g: "Header_Get r = u" using hdr by (simp add: Header_Get_def)
  have "fst (userIsAuthorized env r st)"
    using ne auth row by (simp add: userIsAuthorized_iff g)
  then have w: "wrapHandler textHandler env r st = textHandler env r st"
    by (rule wrapHandler_authorized)
  have c: "fst (userHasCredit env (Header_Get r) st)"
    using sel row cr pos by (simp add: userHasCredit_iff g)
  show ?thesis
    using textHandler_credit [OF c body dec]
    by (simp add: makeRouter.simps w g prod_eq_iff sendJSONResponse_snd sendJSONResponse_fst
        json_hashDocument)
qed

lemma get_text_ok:
  assumes hdr: "header_user_id r = Some u" and ne: "u \<noteq> []"
    and auth: "db_fault env SelectOneFromUser = None"
    and sel: "db_fault env SelectText = None"
    and usr: "find_user u st \<noteq> None"
    and row: "find_text h st = Some row" and rtext: "row_text row = Some s"
  shows "makeRouter (GET_text_hash h) env r st =
           (st, \<lparr>status = 200, content_type = Some ''application/json; charset=UTF-8'',
                 resp_body = JsonBody [(''Text'', JString s)]\<rparr>)"
proof -
  let ?r = "r\<lparr>mux_vars := (mux_vars r)(''hash'' \<mapsto> h)\<rparr>"
  have g: "Header_Get ?r = u" using hdr by (simp add: Header_Get_def)
  have "fst (userIsAuthorized env ?r st)"
    using ne auth usr by (simp add: userIsAuthorized_iff g)
  then have w: "wrapHandler textHashHandler env ?r st = textHashHandler env ?r st"
    by (rule wrapHandler_authorized)
  have v: "mux_Vars ?r ''hash'' = h" by (simp add: mux_Vars_def)
  have q: "query_text env h st = Inr s"
    using sel row rtext by (simp add: query_text_def)
  show ?thesis
    by (simp add: makeRouter.simps w textHashHandler_def v q prod_eq_iff sendJSONResponse_snd
        sendJSONResponse_fst json_textDocument)
qed

lemma get_text_missing:
  assumes hdr: "header_user_id r = Some u" and ne: "u \<noteq> []"
    and auth: "db_fault env SelectOneFromUser = None"
    and sel: "db_fault env SelectText = None"
    and usr: "find_user u st \<noteq> None"
    and row: "find_text h st = None"
  shows "makeRouter (GET_text_hash h) env r st =
           (st, \<lparr>status = 404, content_type = None, resp_body = NoBody\<rparr>)"
proof -
  let ?r = "r\<lparr>mux_vars := (mux_vars r)(''hash'' \<mapsto> h)\<rparr>"
  have g: "Header_Get ?r = u" using hdr by (simp add: Header_Get_def)
  have "fst (userIsAuthorized env ?r st)"
    using ne auth usr by (simp add: userIsAuthorized_iff g)
  then have w: "wrapHandler textHashHandler env ?r st = textHashHandler env ?r st"
    by (rule wrapHandler_authorized)
  have v: "mux_Vars ?r ''hash'' = h" by (simp add: mux_Vars_def)
  have q: "query_text env h st = Inl ErrNoRows"
    using sel row by (simp add: query_text_def)
  show ?thesis
    by (simp add: makeRouter.simps w textHashHandler_def v q WriteHeader_def StatusNotFound_def)
qed

lemma debit_row_id [simp]: "row_user_id (debit_row u r) = row_user_id r"
  by (simp add: debit_row_def)

lemma debit_row_positive:
  "row_user_id row = u \<Longrightarrow> row_credit row = Some c \<Longrightarrow> 0 < c \<Longrightarrow>
   debit_row u row = row\<lparr>row_credit := Some (c - 1)\<rparr>"
  by (simp add: debit_row_def greatest_0_credit_minus_1_def)

lemma find_user_id: "find_user u st = Some row \<Longrightarrow> row_user_id row = u"
  by (auto simp: find_user_def find_Some_iff)

lemma find_append_cases:
  "find P (xs @ ys) = (case find P xs of None \<Rightarrow> find P ys | Some x \<Rightarrow> Some x)"
  by (induction xs) simp_all

lemma find_text_after_insert:
  assumes ins: "db_fault env InsertHashText = None"
    and same: "\<forall>row. find_text h st = Some row \<longrightarrow> row_text row = Some t"
  shows "\<exists>row. find_text h (insertText env t h u st) = Some row \<and> row_text row = Some t"
proof (cases "find_text h st")
  case None
  then have "h \<notin> set (map row_hash (hash_text_tbl st))"
    by (auto simp: find_text_def find_None_iff)
  then show ?thesis
    using None by (simp add: find_text_def insertText_hash_text_tbl [OF ins] find_append_cases)
next
  case (Some row)
  then have "h \<in> set (map row_hash (hash_text_tbl st))"
    by (auto simp: find_text_def find_Some_iff)
  then show ?thesis
    using Some same by (simp add: find_text_def insertText_hash_text_tbl [OF ins])
qed

lemma fixture_jane:
  "find_user jane_id fixture =
     Some \<lparr>row_user_id = jane_id, row_name = ''Jane'', row_credit = Some 1000000\<rparr>"
  by (simp add: fixture_defs)

lemma jane_credit:
  "row_credit \<lparr>row_user_id = jane_id, row_name = ''Jane'', row_credit = Some 1000000\<rparr>
     = Some 1000000"
  "(0::int) < 1000000"
  by simp_all

lemma fixture_pk: "distinct (map row_user_id (user_tbl fixture))"
  by (simp add: fixture_defs)

lemma test_request_fields:
  "header_user_id (test_request hdr b) = hdr" "req_body (test_request hdr b) = Inr b"
  by (simp_all add: test_request_def)

lemma test_env_fields:
  "db_fault (test_env f) = f" "json_Unmarshal (test_env f) test_body = Some test_text"
  by (simp_all add: test_env_def)

lemma jane_id_not_empty: "jane_id \<noteq> []"
  by (simp add: jane_id_def)

lemma fixture_after_post:
  "fst (makeRouter POST_text (test_env no_fault) (test_request (Some jane_id) test_body) fixture) =
     fixture\<lparr>hash_text_tbl := [\<lparr>row_hash = sha256String test_text, row_text = Some test_text\<rparr>],
             user_tbl :=
               [\<lparr>row_user_id = jane_id, row_name = ''Jane'', row_credit = Some 999999\<rparr>,
                \<lparr>row_user_id = xiomara_id, row_name = ''Xiomara'', row_credit = Some 1000000\<rparr>,
                \<lparr>row_user_id = petra_id, row_name = ''Petra'', row_credit = Some 0\<rparr>]\<rparr>"
proof -
  have nf: "db_fault (test_env no_fault) q = None" for q
    by (simp add: test_env_fields no_fault_def)
  have "insertText (test_env no_fault) test_text (sha256String test_text) jane_id fixture =
          fixture\<lparr>hash_text_tbl := [\<lparr>row_hash = sha256String test_text, row_text = Some test_text\<rparr>],
                  user_tbl := map (debit_row jane_id) (user_tbl fixture)\<rparr>"
    using insertText_ok [OF fixture_pk nf nf fixture_jane jane_credit(1)
        BIGINT_MIN_neg [OF jane_credit(2)], of test_text "sha256String test_text"]
    by (simp add: fixture_def)
  moreover have "map (debit_row jane_id) (user_tbl fixture) =
               [\<lparr>row_user_id = jane_id, row_name = ''Jane'', row_credit = Some 999999\<rparr>,
                \<lparr>row_user_id = xiomara_id, row_name = ''Xiomara'', row_credit = Some 1000000\<rparr>,
                \<lparr>row_user_id = petra_id, row_name = ''Petra'', row_credit = Some 0\<rparr>]"
    by (simp add: fixture_defs debit_row_def greatest_0_credit_minus_1_def)
  ultimately show ?thesis
    using post_text_ok [OF test_request_fields(1) jane_id_not_empty nf nf fixture_jane jane_credit
        test_request_fields(2) test_env_fields(2)]
    by simp
qed

lemma wrapHandler_status_ok:
  "status (snd (wrapHandler h env r st)) = StatusOK \<Longrightarrow> fst (userIsAuthorized env r st)"
proof (rule ccontr)
  assume ok: "status (snd (wrapHandler h env r st)) = StatusOK"
    and "\<not> fst (userIsAuthorized env r st)"
  then show False
    using wrapHandler_unauthorized [of env r st h]
    by (simp add: WriteHeader_def StatusOK_def StatusUnauthorized_def)
qed

lemma json_field_name_quoted:
  "json_field_name ''UserID'' ''json:\"user_id\"'' = Some ''user_id''"
  "json_field_name ''Text'' ''json:\"text\"'' = Some ''text''"
  "json_field_name ''Hash'' ''json:\"hash\"'' = Some ''hash''"
  by (simp_all add: json_field_name_def StructTag_Get_def Let_def tag_key_char_def
      strconv_Unquote_def isValidTag_def is_letter_or_digit_def)

section \<open>What every request preserves\<close>

text \<open>
  The theorems on stored texts below assume of the tables what the schema and the program
  maintain: the keys of both tables stay distinct, and every row of \<open>hash_text\<close> that the
  program writes holds a text together with the hash of that text. A tag written in the
  quoted form would give the lower-case key (\<open>json_field_name_quoted\<close>).
\<close>

lemma insertText_hash_text_tbl_cases:
  "hash_text_tbl (insertText env t h u st) = hash_text_tbl st \<or>
   h \<notin> set (map row_hash (hash_text_tbl st)) \<and>
   hash_text_tbl (insertText env t h u st) =
     hash_text_tbl st @ [\<lparr>row_hash = h, row_text = Some t\<rparr>]"
proof (cases "db_fault env InsertHashText")
  case None
  then show ?thesis by (simp add: insertText_hash_text_tbl)
next
  case (Some m)
  then show ?thesis by (simp add: insertText_user_tbl_fault)
qed

lemma textHandler_unreadable:
  "fst (userHasCredit env (Header_Get r) st) \<Longrightarrow> req_body r = Inl e \<Longrightarrow>
   textHandler env r st =
     (log_Printf (LogReadBodyFailed e) st, WriteHeader StatusInternalServerError)"
  using userHasCredit_True [of env "Header_Get r" st]
  by (cases "userHasCredit env (Header_Get r) st") (auto simp: textHandler_def Let_def)

lemma textHandler_undecodable:
  "fst (userHasCredit env (Header_Get r) st) \<Longrightarrow> req_body r = Inr b \<Longrightarrow>
   json_Unmarshal env b = None \<Longrightarrow>
   textHandler env r st =
     (st, sendErrorMessage ''Could not decode the request body as JSON'' StatusBadRequest)"
  using userHasCredit_True [of env "Header_Get r" st]
  by (cases "userHasCredit env (Header_Get r) st") (auto simp: textHandler_def Let_def)

lemma textHandler_hash_text_tbl:
  "hash_text_tbl (fst (textHandler env r st)) = hash_text_tbl st \<or>
   (\<exists>t. sha256String t \<notin> set (map row_hash (hash_text_tbl st)) \<and>
      hash_text_tbl (fst (textHandler env r st)) =
        hash_text_tbl st @ [\<lparr>row_hash = sha256String t, row_text = Some t\<rparr>])"
proof (cases "fst (userHasCredit env (Header_Get r) st)")
  case False
  then show ?thesis
    by (simp add: textHandler_no_credit userHasCredit_tables)
next
  case True
  note c = this
  show ?thesis
  proof (cases "req_body r")
    case (Inl e)
    then show ?thesis
      by (simp add: textHandler_unreadable [OF c])
  next
    case (Inr b)
    show ?thesis
    proof (cases "json_Unmarshal env b")
      case None
      then show ?thesis
        by (simp add: textHandler_undecodable [OF c Inr])
    next
      case (Some t)
      show ?thesis
        using insertText_hash_text_tbl_cases [of env t "sha256String t" "Header_Get r" st]
        by (auto simp: textHandler_credit [OF c Inr Some] sendJSONResponse_fst)
    qed
  qed
qed

lemma wrapHandler_cases:
  "wrapHandler h env r st = h env r st \<or>
   wrapHandler h env r st = (snd (userIsAuthorized env r st), WriteHeader StatusUnauthorized)"
  using wrapHandler_authorized [of env r st h] wrapHandler_unauthorized [of env r st h]
  by blast

lemma userHandler_tables:
  "hash_text_tbl (fst (userHandler env r st)) = hash_text_tbl st \<and>
   user_tbl (fst (userHandler env r st)) = user_tbl st"
  by (simp add: userHandler_def Let_def sendJSONResponse_fst
      split: sum.splits sql_error.splits prod.splits)

lemma textHashHandler_tables:
  "hash_text_tbl (fst (textHashHandler env r st)) = hash_text_tbl st \<and>
   user_tbl (fst (textHashHandler env r st)) = user_tbl st"
  by (simp add: textHashHandler_def sendJSONResponse_fst split: sum.splits sql_error.splits)

lemma makeRouter_hash_text_tbl:
  "hash_text_tbl (fst (makeRouter rt env r st)) = hash_text_tbl st \<or>
   (\<exists>t. sha256String t \<notin> set (map row_hash (hash_text_tbl st)) \<and>
      hash_text_tbl (fst (makeRouter rt env r st)) =
        hash_text_tbl st @ [\<lparr>row_hash = sha256String t, row_text = Some t\<rparr>])"
proof (cases rt)
  case GET_user_me
  then show ?thesis
    using wrapHandler_cases [of userHandler env r st]
    by (auto simp: makeRouter.simps userHandler_tables userIsAuthorized_tables)
next
  case POST_text
  then show ?thesis
    using wrapHandler_cases [of textHandler env r st] textHandler_hash_text_tbl [of env r st]
    by (auto simp: makeRouter.simps userIsAuthorized_tables)
next
  case (GET_text_hash h)
  then show ?thesis
    using wrapHandler_cases [of textHashHandler env "r\<lparr>mux_vars := (mux_vars r)(''hash'' \<mapsto> h)\<rparr>" st]
    by (auto simp: makeRouter.simps textHashHandler_tables userIsAuthorized_tables)
qed

lemma hash_text_rows_stay_hashes:
  assumes "\<forall>row \<in> set (hash_text_tbl st). \<exists>t. row_text row = Some t \<and> row_hash row = sha256String t"
  shows "\<forall>row \<in> set (hash_text_tbl (fst (makeRouter rt env r st))).
           \<exists>t. row_text row = Some t \<and> row_hash row = sha256String t"
  using assms makeRouter_hash_text_tbl [of rt env r st] by auto

lemma hash_text_keys_stay_distinct:
  assumes "distinct (map row_hash (hash_text_tbl st))"
  shows "distinct (map row_hash (hash_text_tbl (fst (makeRouter rt env r st))))"
  using assms makeRouter_hash_text_tbl [of rt env r st] by auto

lemma insertText_user_ids:
  "map row_user_id (user_tbl (insertText env t h u st)) = map row_user_id (user_tbl st)"
  by (auto simp: insertText_def exec_insert_hash_text_def exec_update_credit_def comp_def
      split: option.splits sum.splits if_splits)

lemma textHandler_user_ids:
  "map row_user_id (user_tbl (fst (textHandler env r st))) = map row_user_id (user_tbl st)"
proof (cases "fst (userHasCredit env (Header_Get r) st)")
  case False
  then show ?thesis
    by (simp add: textHandler_no_credit userHasCredit_tables)
next
  case True
  note c = this
  show ?thesis
  proof (cases "req_body r")
    case (Inl e)
    then show ?thesis
      by (simp add: textHandler_unreadable [OF c])
  next
    case (Inr b)
    then show ?thesis
      by (cases "json_Unmarshal env b")
        (simp_all add: textHandler_undecodable [OF c Inr] textHandler_credit [OF c Inr]
          sendJSONResponse_fst insertText_user_ids)
  qed
qed

lemma user_keys_stay_distinct:
  assumes "distinct (map row_user_id (user_tbl st))"
  shows "distinct (map row_user_id (user_tbl (fst (makeRouter rt env r st))))"
proof -
  have "map row_user_id (user_tbl (fst (makeRouter rt env r st))) = map row_user_id (user_tbl st)"
  proof (cases rt)
    case GET_user_me
    then show ?thesis
      using wrapHandler_cases [of userHandler env r st]
      by (auto simp: makeRouter.simps userHandler_tables userIsAuthorized_tables)
  next
    case POST_text
    then show ?thesis
      using wrapHandler_cases [of textHandler env r st]
      by (auto simp: makeRouter.simps textHandler_user_ids userIsAuthorized_tables)
  next
    case (GET_text_hash h)
    then show ?thesis
      using wrapHandler_cases
        [of textHashHandler env "r\<lparr>mux_vars := (mux_vars r)(''hash'' \<mapsto> h)\<rparr>" st]
      by (auto simp: makeRouter.simps textHashHandler_tables userIsAuthorized_tables)
  qed
  then show ?thesis using assms by simp
qed

section \<open>The claims\<close>

text \<open>
  C1 as stated fails when the insertion meets a storage fault: Jane, who has credit, posts
  the text of the test and receives 200 with its hash, and the GET of that hash that follows
  is answered with 404.
\<close>

theorem submit_then_lookup_counterexample:
  "snd (makeRouter POST_text (test_env (fault_at InsertHashText))
          (test_request (Some jane_id) test_body) fixture) =
     \<lparr>status = 200, content_type = Some ''application/json; charset=UTF-8'',
      resp_body = JsonBody [(''Hash'', JString (sha256String test_text))]\<rparr> \<and>
   snd (makeRouter (GET_text_hash (sha256String test_text)) (test_env no_fault)
          (test_request (Some jane_id) [])
          (fst (makeRouter POST_text (test_env (fault_at InsertHashText))
                  (test_request (Some jane_id) test_body) fixture))) =
     \<lparr>status = 404, content_type = None, resp_body = NoBody\<rparr>"
proof -
  let ?env = "test_env (fault_at InsertHashText)"
  let ?r = "test_request (Some jane_id) test_body"
  have a: "db_fault ?env SelectOneFromUser = None" "db_fault ?env SelectCredit = None"
    by (simp_all add: test_env_fields fault_at_def)
  have i: "db_fault ?env InsertHashText = Some ''connection refused''"
    by (simp add: test_env_fields fault_at_def)
  have nf: "db_fault (test_env no_fault) q = None" for q
    by (simp add: test_env_fields no_fault_def)
  have p: "makeRouter POST_text ?env ?r fixture =
             (log_Printf (LogInsertFailed (sha256String test_text) (ErrOther ''connection refused''))
                fixture,
              \<lparr>status = 200, content_type = Some ''application/json; charset=UTF-8'',
               resp_body = JsonBody [(''Hash'', JString (sha256String test_text))]\<rparr>)"
    using post_text_ok [OF test_request_fields(1) jane_id_not_empty a fixture_jane jane_credit
        test_request_fields(2) test_env_fields(2)]
    by (simp add: insertText_user_tbl_fault [OF i])
  have u: "find_user jane_id (fst (makeRouter POST_text ?env ?r fixture)) \<noteq> None"
    using fixture_jane by (simp add: p find_user_def)
  have t: "find_text (sha256String test_text) (fst (makeRouter POST_text ?env ?r fixture)) = None"
    unfolding p by (simp add: find_text_def fixture_def)
  show ?thesis
    using get_text_missing [OF test_request_fields(1) jane_id_not_empty nf nf u t]
    by (simp add: p)
qed

text \<open>
  C1, as amended. When an authorized user with positive credit posts \<open>s\<close>, the response
  carries \<open>sha256String s\<close>, which is the lowercase hexadecimal print of the SHA-256 digest
  of \<open>s\<close>, 64 characters long. If moreover the insertion met no storage fault and
  \<open>hash_text\<close> held no other text under that hash, a later GET of \<open>/text/{hash}\<close> by any
  authorized user, meeting no storage fault, returns exactly \<open>s\<close>.
\<close>

theorem submit_then_lookup:
  assumes st1: "st1 = fst (makeRouter POST_text env1 r1 st)"
    and hdr1: "header_user_id r1 = Some u1" and ne1: "u1 \<noteq> []"
    and auth1: "db_fault env1 SelectOneFromUser = None"
    and sel1: "db_fault env1 SelectCredit = None"
    and row1: "find_user u1 st = Some row1" and cr1: "row_credit row1 = Some c1" and pos1: "0 < c1"
    and body1: "req_body r1 = Inr b1" and dec1: "json_Unmarshal env1 b1 = Some s"
  shows "snd (makeRouter POST_text env1 r1 st) =
           \<lparr>status = 200, content_type = Some ''application/json; charset=UTF-8'',
            resp_body = JsonBody [(''Hash'', JString (sha256String s))]\<rparr> \<and>
         lower_hex (sha256_Sum (string_bytes s)) = sha256String s \<and>
         length (sha256String s) = 64 \<and>
         (db_fault env1 InsertHashText = None \<and>
          (\<forall>row. find_text (sha256String s) st = Some row \<longrightarrow> row_text row = Some s) \<and>
          header_user_id r2 = Some u2 \<and> u2 \<noteq> [] \<and> find_user u2 st1 \<noteq> None \<and>
          db_fault env2 SelectOneFromUser = None \<and> db_fault env2 SelectText = None \<longrightarrow>
            snd (makeRouter (GET_text_hash (sha256String s)) env2 r2 st1) =
              \<lparr>status = 200, content_type = Some ''application/json; charset=UTF-8'',
               resp_body = JsonBody [(''Text'', JString s)]\<rparr>)"
proof -
  note p1 = post_text_ok [OF hdr1 ne1 auth1 sel1 row1 cr1 pos1 body1 dec1]
  have s1: "st1 = insertText env1 s (sha256String s) u1 st"
    using st1 by (simp add: p1)
  have hex: "lower_hex (sha256_Sum (string_bytes s)) = sha256String s"
    by (simp add: sha256String_def hex_EncodeToString_lower)
  have get: "snd (makeRouter (GET_text_hash (sha256String s)) env2 r2 st1) =
               \<lparr>status = 200, content_type = Some ''application/json; charset=UTF-8'',
                resp_body = JsonBody [(''Text'', JString s)]\<rparr>"
    if ins1: "db_fault env1 InsertHashText = None"
      and same: "\<forall>row. find_text (sha256String s) st = Some row \<longrightarrow> row_text row = Some s"
      and hdr2: "header_user_id r2 = Some u2" and ne2: "u2 \<noteq> []"
      and usr2: "find_user u2 st1 \<noteq> None"
      and auth2: "db_fault env2 SelectOneFromUser = None"
      and sel2: "db_fault env2 SelectText = None"
  proof -
    obtain row where row: "find_text (sha256String s) st1 = Some row" "row_text row = Some s"
      using find_text_after_insert [OF ins1 same] s1 by blast
    show ?thesis
      by (simp add: get_text_ok [OF hdr2 ne2 auth2 sel2 usr2 row])
  qed
  show ?thesis
    using get hex by (simp add: p1 length_sha256String)
qed

theorem submit_then_lookup_witness:
  "find_user jane_id fixture =
     Some \<lparr>row_user_id = jane_id, row_name = ''Jane'', row_credit = Some 1000000\<rparr> \<and>
   snd (makeRouter POST_text (test_env no_fault) (test_request (Some jane_id) test_body) fixture) =
     \<lparr>status = 200, content_type = Some ''application/json; charset=UTF-8'',
      resp_body = JsonBody [(''Hash'', JString (sha256String test_text))]\<rparr> \<and>
   snd (makeRouter (GET_text_hash (sha256String test_text)) (test_env no_fault)
          (test_request (Some xiomara_id) [])
          (fst (makeRouter POST_text (test_env no_fault) (test_request (Some jane_id) test_body)
                  fixture))) =
     \<lparr>status = 200, content_type = Some ''application/json; charset=UTF-8'',
      resp_body = JsonBody [(''Text'', JString test_text)]\<rparr>"
proof -
  let ?st1 = "fst (makeRouter POST_text (test_env no_fault) (test_request (Some jane_id) test_body)
                fixture)"
  have nf: "db_fault (test_env no_fault) q = None" for q
    by (simp add: test_env_fields no_fault_def)
  have same: "\<forall>row. find_text (sha256String test_text) fixture = Some row \<longrightarrow>
                row_text row = Some test_text"
    by (simp add: find_text_def fixture_def)
  have x: "xiomara_id \<noteq> []" by (simp add: xiomara_id_def)
  have u2: "find_user xiomara_id ?st1 \<noteq> None"
    unfolding fixture_after_post by (simp add: find_user_def jane_id_def xiomara_id_def)
  show ?thesis
    using submit_then_lookup [OF refl test_request_fields(1) jane_id_not_empty nf nf
        fixture_jane jane_credit test_request_fields(2) test_env_fields(2),
        of "test_request (Some xiomara_id) []" xiomara_id "test_env no_fault"]
      fixture_jane same x u2 nf
    by (simp add: test_request_fields)
qed

text \<open>
  C2. Once the insertion has succeeded (and the UPDATE itself meets no fault), \<open>insertText\<close>
  sets the credit \<open>c\<close> of the submitting user to exactly \<open>max 0 (c - 1)\<close>, whether the
  insertion added a row or found the hash present (nothing is assumed of \<open>hash_text\<close>);
  after the debit no row of that user has a negative or NULL credit; and a successful
  \<open>POST /text\<close> leaves the user with exactly that credit.
\<close>

theorem debit_floor_zero:
  assumes pk: "distinct (map row_user_id (user_tbl st))"
    and ins: "db_fault env InsertHashText = None"
    and upd: "db_fault env UpdateCredit = None"
    and row: "find_user userID st = Some row" and cr: "row_credit row = Some c"
    and rng: "BIGINT_MIN < c"
  shows "find_user userID (insertText env t h userID st) =
           Some (row\<lparr>row_credit := Some (max 0 (c - 1))\<rparr>) \<and>
         (\<forall>r \<in> set (user_tbl (insertText env t h userID st)).
            row_user_id r = userID \<longrightarrow> (\<exists>c'. row_credit r = Some c' \<and> 0 \<le> c')) \<and>
         (header_user_id r = Some userID \<and> userID \<noteq> [] \<and>
          db_fault env SelectOneFromUser = None \<and> db_fault env SelectCredit = None \<and>
          0 < c \<and> req_body r = Inr b \<and> json_Unmarshal env b = Some s \<longrightarrow>
            find_user userID (fst (makeRouter POST_text env r st)) =
              Some (row\<lparr>row_credit := Some (max 0 (c - 1))\<rparr>))"
proof -
  have id: "row_user_id row = userID"
    using row by (rule find_user_id)
  have d: "debit_row userID row = row\<lparr>row_credit := Some (max 0 (c - 1))\<rparr>"
    using id cr by (simp add: debit_row_def greatest_0_credit_minus_1_def)
  have main: "find_user userID (insertText env t' h' userID st) =
                Some (row\<lparr>row_credit := Some (max 0 (c - 1))\<rparr>)" for t' h'
    using find_user_debited [where v = userID and u = userID] row d
    by (simp add: insertText_ok [OF pk ins upd row cr rng] find_user_def)
  have nonneg: "\<exists>c'. row_credit (debit_row userID r) = Some c' \<and> 0 \<le> c'"
    if "row_user_id (debit_row userID r) = userID" for r
    using that
    by (cases "row_credit r")
      (auto simp: debit_row_def greatest_0_credit_minus_1_def split: if_splits)
  have all: "\<forall>r \<in> set (user_tbl (insertText env t h userID st)).
               row_user_id r = userID \<longrightarrow> (\<exists>c'. row_credit r = Some c' \<and> 0 \<le> c')"
    using nonneg by (auto simp: insertText_ok [OF pk ins upd row cr rng])
  have req: "find_user userID (fst (makeRouter POST_text env r st)) =
               Some (row\<lparr>row_credit := Some (max 0 (c - 1))\<rparr>)"
    if "header_user_id r = Some userID" "userID \<noteq> []"
      "db_fault env SelectOneFromUser = None" "db_fault env SelectCredit = None"
      "0 < c" "req_body r = Inr b" "json_Unmarshal env b = Some s"
    using post_text_ok [OF that(1-4) row cr that(5-7)] main [of s "sha256String s"]
    by simp
  show ?thesis
    using main [of t h] all req by blast
qed

theorem debit_floor_zero_witness:
  "distinct (map row_user_id (user_tbl fixture)) \<and>
   find_user jane_id fixture =
     Some \<lparr>row_user_id = jane_id, row_name = ''Jane'', row_credit = Some 1000000\<rparr> \<and>
   find_user jane_id
     (insertText (test_env no_fault) test_text (sha256String test_text) jane_id fixture) =
     Some \<lparr>row_user_id = jane_id, row_name = ''Jane'', row_credit = Some 999999\<rparr> \<and>
   find_user jane_id
     (fst (makeRouter POST_text (test_env no_fault) (test_request (Some jane_id) test_body)
             fixture)) =
     Some \<lparr>row_user_id = jane_id, row_name = ''Jane'', row_credit = Some 999999\<rparr> \<and>
   find_user petra_id
     (insertText (test_env no_fault) test_text (sha256String test_text) petra_id fixture) =
     Some \<lparr>row_user_id = petra_id, row_name = ''Petra'', row_credit = Some 0\<rparr>"
proof -
  have nf: "db_fault (test_env no_fault) q = None" for q
    by (simp add: test_env_fields no_fault_def)
  have petra: "find_user petra_id fixture =
                 Some \<lparr>row_user_id = petra_id, row_name = ''Petra'', row_credit = Some 0\<rparr>"
    by (simp add: fixture_defs)
  have pc: "row_credit \<lparr>row_user_id = petra_id, row_name = ''Petra'', row_credit = Some 0\<rparr>
              = Some 0" "BIGINT_MIN < 0"
    by (simp_all add: BIGINT_MIN_def)
  show ?thesis
    using fixture_pk fixture_jane
      debit_floor_zero [OF fixture_pk nf nf fixture_jane jane_credit(1)
        BIGINT_MIN_neg [OF jane_credit(2)], of test_text "sha256String test_text"
        "test_request (Some jane_id) test_body" test_body test_text]
      debit_floor_zero [OF fixture_pk nf nf petra pc, of test_text "sha256String test_text"]
    by (simp add: test_request_fields test_env_fields jane_id_not_empty no_fault_def)
qed

text \<open>
  C3. Two successful submissions of the same text \<open>s\<close>, by users with positive credit: both
  responses carry the same hash; afterwards \<open>hash_text\<close> has exactly one row for that hash
  and it holds \<open>s\<close>; the second submission logs no error; and each submission lowers the
  credit of its user by exactly 1.
\<close>

theorem resubmission_idempotent_storage:
  assumes pk_user: "distinct (map row_user_id (user_tbl st))"
    and pk_hash: "distinct (map row_hash (hash_text_tbl st))"
    and same: "\<forall>row \<in> set (hash_text_tbl st). row_hash row = sha256String s \<longrightarrow> row_text row = Some s"
    and st1: "st1 = fst (makeRouter POST_text env1 r1 st)"
    and st2: "st2 = fst (makeRouter POST_text env2 r2 st1)"
    and nf1: "\<And>q. db_fault env1 q = None" and nf2: "\<And>q. db_fault env2 q = None"
    and hdr1: "header_user_id r1 = Some u1" and ne1: "u1 \<noteq> []"
    and row1: "find_user u1 st = Some row1" and cr1: "row_credit row1 = Some c1" and pos1: "0 < c1"
    and body1: "req_body r1 = Inr b1" and dec1: "json_Unmarshal env1 b1 = Some s"
    and hdr2: "header_user_id r2 = Some u2" and ne2: "u2 \<noteq> []"
    and row2: "find_user u2 st1 = Some row2" and cr2: "row_credit row2 = Some c2" and pos2: "0 < c2"
    and body2: "req_body r2 = Inr b2" and dec2: "json_Unmarshal env2 b2 = Some s"
  shows "snd (makeRouter POST_text env1 r1 st) =
           \<lparr>status = 200, content_type = Some ''application/json; charset=UTF-8'',
            resp_body = JsonBody [(''Hash'', JString (sha256String s))]\<rparr> \<and>
         snd (makeRouter POST_text env2 r2 st1) = snd (makeRouter POST_text env1 r1 st) \<and>
         filter (\<lambda>row. row_hash row = sha256String s) (hash_text_tbl st2) =
           [\<lparr>row_hash = sha256String s, row_text = Some s\<rparr>] \<and>
         logged st2 = logged st \<and>
         find_user u1 st1 = Some (row1\<lparr>row_credit := Some (c1 - 1)\<rparr>) \<and>
         find_user u2 st2 = Some (row2\<lparr>row_credit := Some (c2 - 1)\<rparr>)"
proof -
  let ?h = "sha256String s"
  let ?new = "\<lparr>row_hash = ?h, row_text = Some s\<rparr>"
  let ?tbl1 = "if ?h \<in> set (map row_hash (hash_text_tbl st)) then hash_text_tbl st
               else hash_text_tbl st @ [?new]"
  note p1 = post_text_ok [OF hdr1 ne1 nf1 nf1 row1 cr1 pos1 body1 dec1]
  note i1 = insertText_ok [OF pk_user nf1 nf1 row1 cr1 BIGINT_MIN_neg [OF pos1], of s ?h]
  have s1: "st1 = st\<lparr>hash_text_tbl := ?tbl1, user_tbl := map (debit_row u1) (user_tbl st)\<rparr>"
    using st1 by (simp add: p1 i1)
  have pk1: "distinct (map row_user_id (user_tbl st1))"
    using pk_user by (simp add: s1 comp_def)
  note p2 = post_text_ok [OF hdr2 ne2 nf2 nf2 row2 cr2 pos2 body2 dec2]
  note i2 = insertText_ok [OF pk1 nf2 nf2 row2 cr2 BIGINT_MIN_neg [OF pos2], of s ?h]
  have in1: "?h \<in> set (map row_hash (hash_text_tbl st1))"
    by (simp add: s1)
  have s2: "st2 = st1\<lparr>user_tbl := map (debit_row u2) (user_tbl st1)\<rparr>"
    using st2 in1 by (simp add: p2 i2)
  have t2: "hash_text_tbl st2 = ?tbl1"
    by (simp add: s2 s1)
  have f: "filter (\<lambda>row. row_hash row = ?h) ?tbl1 = [?new]"
  proof (cases "?h \<in> set (map row_hash (hash_text_tbl st))")
    case True
    then obtain x where x: "x \<in> set (hash_text_tbl st)" "row_hash x = ?h"
      by auto
    then have "row_text x = Some s" using same by blast
    then have "x = ?new" using x(2) by simp
    then show ?thesis
      using filter_key_unique [OF pk_hash x(1)] x(2) True by simp
  next
    case False
    then have "filter (\<lambda>row. row_hash row = ?h) (hash_text_tbl st) = []"
      by (auto simp: filter_empty_conv) (metis imageI)
    then show ?thesis using False by simp
  qed
  have c1: "find_user u1 st1 = Some (row1\<lparr>row_credit := Some (c1 - 1)\<rparr>)"
    using find_user_debited [where v = u1 and u = u1 and st = "st\<lparr>hash_text_tbl := ?tbl1\<rparr>"] row1
      debit_row_positive [OF find_user_id [OF row1] cr1 pos1]
    by (simp add: s1 find_user_def)
  have c2: "find_user u2 st2 = Some (row2\<lparr>row_credit := Some (c2 - 1)\<rparr>)"
    using find_user_debited [where v = u2 and u = u2 and st = st1] row2
      debit_row_positive [OF find_user_id [OF row2] cr2 pos2]
    by (simp add: s2)
  show ?thesis
    using f c1 c2 by (simp add: p1 p2 t2) (simp add: s2 s1)
qed

theorem resubmission_idempotent_storage_witness:
  "distinct (map row_user_id (user_tbl fixture)) \<and>
   distinct (map row_hash (hash_text_tbl fixture)) \<and>
   find_user jane_id fixture =
     Some \<lparr>row_user_id = jane_id, row_name = ''Jane'', row_credit = Some 1000000\<rparr> \<and>
   filter (\<lambda>row. row_hash row = sha256String test_text)
     (hash_text_tbl
       (fst (makeRouter POST_text (test_env no_fault) (test_request (Some jane_id) test_body)
          (fst (makeRouter POST_text (test_env no_fault) (test_request (Some jane_id) test_body)
             fixture))))) =
     [\<lparr>row_hash = sha256String test_text, row_text = Some test_text\<rparr>] \<and>
   find_user jane_id
     (fst (makeRouter POST_text (test_env no_fault) (test_request (Some jane_id) test_body)
        (fst (makeRouter POST_text (test_env no_fault) (test_request (Some jane_id) test_body)
           fixture)))) =
     Some \<lparr>row_user_id = jane_id, row_name = ''Jane'', row_credit = Some 999998\<rparr>"
proof -
  let ?env = "test_env no_fault"
  let ?r = "test_request (Some jane_id) test_body"
  let ?st1 = "fst (makeRouter POST_text ?env ?r fixture)"
  let ?row2 = "\<lparr>row_user_id = jane_id, row_name = ''Jane'', row_credit = Some 999999\<rparr>"
  have nf: "db_fault ?env q = None" for q
    by (simp add: test_env_fields no_fault_def)
  have pkh: "distinct (map row_hash (hash_text_tbl fixture))"
    by (simp add: fixture_def)
  have same: "\<forall>row \<in> set (hash_text_tbl fixture).
                row_hash row = sha256String test_text \<longrightarrow> row_text row = Some test_text"
    by (simp add: fixture_def)
  have row2: "find_user jane_id ?st1 = Some ?row2"
    unfolding fixture_after_post by (simp add: find_user_def)
  have c2: "row_credit ?row2 = Some 999999" "(0::int) < 999999"
    by simp_all
  show ?thesis
    using fixture_pk pkh fixture_jane
      resubmission_idempotent_storage [OF fixture_pk pkh same refl refl nf nf
        test_request_fields(1) jane_id_not_empty fixture_jane jane_credit
        test_request_fields(2) test_env_fields(2)
        test_request_fields(1) jane_id_not_empty row2 c2
        test_request_fields(2) test_env_fields(2)]
    by simp
qed

text \<open>
  C4. A POST to \<open>/text\<close> by an authorized user whose credit is at most 0 is answered with
  402, the content type \<open>text/plain; charset=UTF-8\<close> and the fixed message as body, and
  leaves both tables as they were.
\<close>

theorem out_of_credit_402:
  assumes hdr: "header_user_id r = Some u" and ne: "u \<noteq> []"
    and auth: "db_fault env SelectOneFromUser = None"
    and row: "find_user u st = Some row" and cr: "row_credit row = Some c" and le: "c \<le> 0"
  shows "snd (makeRouter POST_text env r st) =
           \<lparr>status = 402, content_type = Some ''text/plain; charset=UTF-8'',
            resp_body = TextBody ''You are out of credit. Please pay us more money.''\<rparr> \<and>
         hash_text_tbl (fst (makeRouter POST_text env r st)) = hash_text_tbl st \<and>
         user_tbl (fst (makeRouter POST_text env r st)) = user_tbl st"
proof -
  have g: "Header_Get r = u" using hdr by (simp add: Header_Get_def)
  have "fst (userIsAuthorized env r st)"
    using ne auth row by (simp add: userIsAuthorized_iff g)
  then have w: "wrapHandler textHandler env r st = textHandler env r st"
    by (rule wrapHandler_authorized)
  have "\<not> fst (userHasCredit env (Header_Get r) st)"
    using row cr le by (simp add: userHasCredit_iff g)
  then show ?thesis
    by (simp add: makeRouter.simps w textHandler_no_credit userHasCredit_tables
        sendErrorMessage_def StatusPaymentRequired_def)
qed

theorem out_of_credit_402_witness:
  "find_user petra_id fixture =
     Some \<lparr>row_user_id = petra_id, row_name = ''Petra'', row_credit = Some 0\<rparr> \<and>
   makeRouter POST_text (test_env no_fault) (test_request (Some petra_id) test_body) fixture =
     (fixture,
      \<lparr>status = 402, content_type = Some ''text/plain; charset=UTF-8'',
       resp_body = TextBody ''You are out of credit. Please pay us more money.''\<rparr>)"
proof -
  let ?row = "\<lparr>row_user_id = petra_id, row_name = ''Petra'', row_credit = Some 0\<rparr>"
  have f: "find_user petra_id fixture = Some ?row"
    by (simp add: fixture_defs)
  have h: "header_user_id (test_request (Some petra_id) test_body) = Some petra_id"
    by (simp add: test_request_def)
  have n: "petra_id \<noteq> []" by (simp add: petra_id_def)
  have a: "db_fault (test_env no_fault) SelectOneFromUser = None"
    by (simp add: test_env_def no_fault_def)
  have s: "fst (makeRouter POST_text (test_env no_fault) (test_request (Some petra_id) test_body) fixture)
            = fixture"
    by (simp add: makeRouter.simps fixture_defs wrapHandler_def userIsAuthorized_def
        query_user_exists_def textHandler_def userHasCredit_def query_credit_def Let_def)
  show ?thesis
    using out_of_credit_402 [OF h n a f, of 0] f s
    by (simp add: prod_eq_iff)
qed

text \<open>
  C5. On each of the three routes, a request whose \<open>X-HashText-User-ID\<close> header is absent,
  is the empty string, or matches no row of \<open>user\<close> is answered with 401 and no body;
  neither table changes, and the outcome is the same whatever handler stands behind the gate,
  so the handler is not run.
\<close>

theorem unauthorized_request_401:
  assumes "header_user_id r = None \<or> header_user_id r = Some [] \<or>
           (\<exists>u. header_user_id r = Some u \<and> find_user u st = None)"
  shows "snd (makeRouter rt env r st) = \<lparr>status = 401, content_type = None, resp_body = NoBody\<rparr> \<and>
         user_tbl (fst (makeRouter rt env r st)) = user_tbl st \<and>
         hash_text_tbl (fst (makeRouter rt env r st)) = hash_text_tbl st \<and>
         wrapHandler h env r st = wrapHandler h' env r st"
proof -
  have un: "\<not> fst (userIsAuthorized env r' st)" if "header_user_id r' = header_user_id r" for r'
    using assms that by (auto simp: userIsAuthorized_iff Header_Get_def)
  have w: "wrapHandler g env r' st =
             (snd (userIsAuthorized env r' st), WriteHeader StatusUnauthorized)"
    if "header_user_id r' = header_user_id r" for g r'
    using un [OF that] by (rule wrapHandler_unauthorized)
  have "snd (makeRouter rt env r st) = WriteHeader StatusUnauthorized \<and>
        user_tbl (fst (makeRouter rt env r st)) = user_tbl st \<and>
        hash_text_tbl (fst (makeRouter rt env r st)) = hash_text_tbl st"
    by (cases rt) (simp_all add: makeRouter.simps w userIsAuthorized_tables)
  moreover have "wrapHandler h env r st = wrapHandler h' env r st"
    by (simp add: w)
  ultimately show ?thesis
    by (simp add: WriteHeader_def StatusUnauthorized_def)
qed

theorem unauthorized_request_401_witness:
  "find_user ''foo'' fixture = None \<and>
   snd (makeRouter POST_text (test_env no_fault) (test_request (Some ''foo'') test_body) fixture)
     = \<lparr>status = 401, content_type = None, resp_body = NoBody\<rparr> \<and>
   snd (makeRouter GET_user_me (test_env no_fault) (test_request None []) fixture)
     = \<lparr>status = 401, content_type = None, resp_body = NoBody\<rparr> \<and>
   snd (makeRouter (GET_text_hash ''abc'') (test_env no_fault) (test_request (Some []) []) fixture)
     = \<lparr>status = 401, content_type = None, resp_body = NoBody\<rparr>"
proof -
  have f: "find_user ''foo'' fixture = None"
    by (simp add: fixture_defs)
  show ?thesis
    using f
      unauthorized_request_401 [of "test_request (Some ''foo'') test_body" fixture POST_text "test_env no_fault"]
      unauthorized_request_401 [of "test_request None []" fixture GET_user_me "test_env no_fault"]
      unauthorized_request_401 [of "test_request (Some []) []" fixture "GET_text_hash ''abc''" "test_env no_fault"]
    by (simp add: test_request_def)
qed

text \<open>
  C6 as stated fails: the keys of the three documents are the Go names of the fields,
  \<open>UserID\<close>, \<open>Name\<close>, \<open>Credit\<close>, \<open>Hash\<close> and \<open>Text\<close>, because none of the tags has the
  form \<open>json:"..."\<close> that \<open>encoding/json\<close> reads.
\<close>

theorem success_body_fields_counterexample:
  "json_keys (resp_body (snd (makeRouter GET_user_me (test_env no_fault)
       (test_request (Some jane_id) []) fixture))) = [''UserID'', ''Name'', ''Credit''] \<and>
   json_keys (resp_body (snd (makeRouter POST_text (test_env no_fault)
       (test_request (Some jane_id) test_body) fixture))) = [''Hash''] \<and>
   json_keys (resp_body (snd (makeRouter (GET_text_hash (sha256String test_text)) (test_env no_fault)
       (test_request (Some jane_id) [])
       (fst (makeRouter POST_text (test_env no_fault) (test_request (Some jane_id) test_body)
          fixture))))) = [''Text''] \<and>
   [''UserID'', ''Name'', ''Credit''] \<noteq> [''user_id'', ''name'', ''credit''] \<and>
   [''Hash''] \<noteq> [''hash''] \<and> [''Text''] \<noteq> [''text'']"
proof -
  let ?env = "test_env no_fault"
  let ?st1 = "fst (makeRouter POST_text ?env (test_request (Some jane_id) test_body) fixture)"
  have nf: "db_fault ?env q = None" for q
    by (simp add: test_env_fields no_fault_def)
  have a: "fst (userIsAuthorized ?env (test_request (Some jane_id) []) fixture)"
    using fixture_jane jane_id_not_empty nf
    by (simp add: userIsAuthorized_iff Header_Get_def test_request_fields)
  have q: "query_name_credit ?env jane_id fixture = Inr (''Jane'', 1000000)"
    using fixture_jane nf by (simp add: query_name_credit_def)
  have u: "makeRouter GET_user_me ?env (test_request (Some jane_id) []) fixture =
             sendJSONResponse (userDocument jane_id ''Jane'' 1000000) fixture"
    using wrapHandler_authorized [OF a, of userHandler] q
    by (simp add: makeRouter.simps userHandler_def Header_Get_def test_request_fields)
  have p: "snd (makeRouter POST_text ?env (test_request (Some jane_id) test_body) fixture) =
             \<lparr>status = 200, content_type = Some ''application/json; charset=UTF-8'',
              resp_body = JsonBody [(''Hash'', JString (sha256String test_text))]\<rparr>"
    using post_text_ok [OF test_request_fields(1) jane_id_not_empty nf nf fixture_jane jane_credit
        test_request_fields(2) test_env_fields(2)]
    by simp
  have uj: "find_user jane_id ?st1 \<noteq> None"
    unfolding fixture_after_post by (simp add: find_user_def)
  have ft: "find_text (sha256String test_text) ?st1 =
              Some \<lparr>row_hash = sha256String test_text, row_text = Some test_text\<rparr>"
    unfolding fixture_after_post by (simp add: find_text_def)
  have g: "snd (makeRouter (GET_text_hash (sha256String test_text)) ?env
                 (test_request (Some jane_id) []) ?st1) =
             \<lparr>status = 200, content_type = Some ''application/json; charset=UTF-8'',
              resp_body = JsonBody [(''Text'', JString test_text)]\<rparr>"
    using get_text_ok [OF test_request_fields(1) jane_id_not_empty nf nf uj ft]
    by simp
  show ?thesis
    unfolding u p g by (simp add: sendJSONResponse_snd json_userDocument)
qed

text \<open>
  C6, as amended. Every successful response carries the documented fields in number, order
  and value: \<open>GET /user/me\<close> three fields, the id of the caller, then the name under the
  key \<open>Name\<close> and the credit under the key \<open>Credit\<close>; \<open>POST /text\<close> a single field with the
  hash of the submitted text; \<open>GET /text/{hash}\<close> a single field with the stored text. The
  keys of the three tagged fields are left open.
\<close>

theorem success_body_fields:
  "(status (snd (makeRouter GET_user_me env r st)) = StatusOK \<longrightarrow>
      (\<exists>k row c. find_user (Header_Get r) st = Some row \<and> row_credit row = Some c \<and>
         resp_body (snd (makeRouter GET_user_me env r st)) =
           JsonBody [(k, JString (Header_Get r)), (''Name'', JString (row_name row)),
                     (''Credit'', JNumber c)])) \<and>
   (status (snd (makeRouter POST_text env r st)) = StatusOK \<longrightarrow>
      (\<exists>k b t. req_body r = Inr b \<and> json_Unmarshal env b = Some t \<and>
         resp_body (snd (makeRouter POST_text env r st)) =
           JsonBody [(k, JString (sha256String t))])) \<and>
   (status (snd (makeRouter (GET_text_hash h) env r st)) = StatusOK \<longrightarrow>
      (\<exists>k row t. find_text h st = Some row \<and> row_text row = Some t \<and>
         resp_body (snd (makeRouter (GET_text_hash h) env r st)) = JsonBody [(k, JString t)]))"
proof (intro conjI impI)
  assume ok: "status (snd (makeRouter GET_user_me env r st)) = StatusOK"
  have a: "fst (userIsAuthorized env r st)"
    using ok by (simp add: makeRouter.simps wrapHandler_status_ok)
  have w: "makeRouter GET_user_me env r st = userHandler env r st"
    using wrapHandler_authorized [OF a, of userHandler] by (simp add: makeRouter.simps)
  show "\<exists>k row c. find_user (Header_Get r) st = Some row \<and> row_credit row = Some c \<and>
         resp_body (snd (makeRouter GET_user_me env r st)) =
           JsonBody [(k, JString (Header_Get r)), (''Name'', JString (row_name row)),
                     (''Credit'', JNumber c)]"
    using ok
    by (auto simp: w userHandler_def query_name_credit_def Let_def WriteHeader_def StatusOK_def
        StatusNotFound_def StatusInternalServerError_def sendJSONResponse_snd json_userDocument
        split: option.splits)
next
  assume ok: "status (snd (makeRouter POST_text env r st)) = StatusOK"
  have a: "fst (userIsAuthorized env r st)"
    using ok by (simp add: makeRouter.simps wrapHandler_status_ok)
  have w: "makeRouter POST_text env r st = textHandler env r st"
    using wrapHandler_authorized [OF a, of textHandler] by (simp add: makeRouter.simps)
  have c: "fst (userHasCredit env (Header_Get r) st)"
  proof (rule ccontr)
    assume "\<not> fst (userHasCredit env (Header_Get r) st)"
    then show False
      using ok textHandler_no_credit [of env r st]
      by (simp add: w sendErrorMessage_def StatusOK_def StatusPaymentRequired_def)
  qed
  show "\<exists>k b t. req_body r = Inr b \<and> json_Unmarshal env b = Some t \<and>
         resp_body (snd (makeRouter POST_text env r st)) =
           JsonBody [(k, JString (sha256String t))]"
  proof (cases "req_body r")
    case (Inl e)
    then show ?thesis
      using ok c userHasCredit_True [OF c]
      by (cases "userHasCredit env (Header_Get r) st")
        (auto simp: w textHandler_def Let_def WriteHeader_def StatusOK_def
          StatusInternalServerError_def)
  next
    case (Inr b)
    show ?thesis
    proof (cases "json_Unmarshal env b")
      case None
      then show ?thesis
        using ok c Inr userHasCredit_True [OF c]
        by (cases "userHasCredit env (Header_Get r) st")
          (auto simp: w textHandler_def Let_def sendErrorMessage_def StatusOK_def
            StatusBadRequest_def)
    next
      case (Some t)
      then show ?thesis
        using Inr textHandler_credit [OF c Inr Some]
        by (simp add: w sendJSONResponse_snd json_hashDocument)
    qed
  qed
next
  let ?r = "r\<lparr>mux_vars := (mux_vars r)(''hash'' \<mapsto> h)\<rparr>"
  assume ok: "status (snd (makeRouter (GET_text_hash h) env r st)) = StatusOK"
  have a: "fst (userIsAuthorized env ?r st)"
    using ok by (simp add: makeRouter.simps wrapHandler_status_ok)
  have w: "makeRouter (GET_text_hash h) env r st = textHashHandler env ?r st"
    using wrapHandler_authorized [OF a, of textHashHandler] by (simp add: makeRouter.simps)
  have v: "mux_Vars ?r ''hash'' = h" by (simp add: mux_Vars_def)
  show "\<exists>k row t. find_text h st = Some row \<and> row_text row = Some t \<and>
         resp_body (snd (makeRouter (GET_text_hash h) env r st)) = JsonBody [(k, JString t)]"
    using ok
    by (auto simp: w v textHashHandler_def query_text_def WriteHeader_def StatusOK_def
        StatusNotFound_def StatusInternalServerError_def sendJSONResponse_snd json_textDocument
        split: option.splits)
qed

theorem success_body_fields_witness:
  "status (snd (makeRouter GET_user_me (test_env no_fault)
       (test_request (Some jane_id) test_body) fixture)) = StatusOK \<and>
   status (snd (makeRouter POST_text (test_env no_fault)
       (test_request (Some jane_id) test_body) fixture)) = StatusOK \<and>
   status (snd (makeRouter (GET_text_hash (sha256String test_text)) (test_env no_fault)
       (test_request (Some jane_id) test_body)
       (fst (makeRouter POST_text (test_env no_fault) (test_request (Some jane_id) test_body)
          fixture)))) = StatusOK \<and>
   (\<exists>k. resp_body (snd (makeRouter GET_user_me (test_env no_fault)
       (test_request (Some jane_id) test_body) fixture)) =
      JsonBody [(k, JString jane_id), (''Name'', JString ''Jane''), (''Credit'', JNumber 1000000)]) \<and>
   (\<exists>k. resp_body (snd (makeRouter POST_text (test_env no_fault)
       (test_request (Some jane_id) test_body) fixture)) =
      JsonBody [(k, JString (sha256String test_text))]) \<and>
   (\<exists>k. resp_body (snd (makeRouter (GET_text_hash (sha256String test_text)) (test_env no_fault)
       (test_request (Some jane_id) test_body)
       (fst (makeRouter POST_text (test_env no_fault) (test_request (Some jane_id) test_body)
          fixture)))) =
      JsonBody [(k, JString test_text)])"
proof -
  let ?env = "test_env no_fault"
  let ?r = "test_request (Some jane_id) test_body"
  let ?h = "sha256String test_text"
  let ?st1 = "fst (makeRouter POST_text ?env ?r fixture)"
  have nf: "db_fault ?env q = None" for q
    by (simp add: test_env_fields no_fault_def)
  have g: "Header_Get ?r = jane_id"
    by (simp add: Header_Get_def test_request_fields)
  have a: "fst (userIsAuthorized ?env ?r fixture)"
    using fixture_jane jane_id_not_empty nf by (simp add: userIsAuthorized_iff g)
  have q: "query_name_credit ?env jane_id fixture = Inr (''Jane'', 1000000)"
    using fixture_jane nf by (simp add: query_name_credit_def)
  have s1: "status (snd (makeRouter GET_user_me ?env ?r fixture)) = StatusOK"
    using wrapHandler_authorized [OF a, of userHandler] q
    by (simp add: makeRouter.simps userHandler_def g sendJSONResponse_snd StatusOK_def)
  have s2: "status (snd (makeRouter POST_text ?env ?r fixture)) = StatusOK"
    using post_text_ok [OF test_request_fields(1) jane_id_not_empty nf nf fixture_jane jane_credit
        test_request_fields(2) test_env_fields(2)]
    by (simp add: StatusOK_def)
  have uj: "find_user jane_id ?st1 \<noteq> None"
    unfolding fixture_after_post by (simp add: find_user_def)
  have ft: "find_text ?h ?st1 = Some \<lparr>row_hash = ?h, row_text = Some test_text\<rparr>"
    unfolding fixture_after_post by (simp add: find_text_def)
  have s3: "status (snd (makeRouter (GET_text_hash ?h) ?env ?r ?st1)) = StatusOK"
    using get_text_ok [OF test_request_fields(1) jane_id_not_empty nf nf uj ft]
    by (simp add: StatusOK_def)
  note th0 = success_body_fields [of ?env ?r fixture ?h]
  note th1 = success_body_fields [of ?env ?r ?st1 ?h]
  have c1: "\<exists>k. resp_body (snd (makeRouter GET_user_me ?env ?r fixture)) =
      JsonBody [(k, JString jane_id), (''Name'', JString ''Jane''), (''Credit'', JNumber 1000000)]"
    using th0 s1 fixture_jane by (auto simp: g)
  have c2: "\<exists>k. resp_body (snd (makeRouter POST_text ?env ?r fixture)) =
      JsonBody [(k, JString ?h)]"
    using th0 s2 by (auto simp: test_request_fields test_env_fields)
  have c3: "\<exists>k. resp_body (snd (makeRouter (GET_text_hash ?h) ?env ?r ?st1)) =
      JsonBody [(k, JString test_text)]"
    using th1 s3 ft by auto
  show ?thesis
    using s1 s2 s3 c1 c2 c3 by blast
qed

text \<open>
  C7. When the insertion into \<open>hash_text\<close> meets a storage fault, \<open>insertText\<close> logs it
  and returns before the debit: the table \<open>user\<close>, and with it the credit of the user, is
  the same after the call and after the whole request.
\<close>

theorem insert_fault_no_debit:
  assumes "db_fault env InsertHashText = Some m"
  shows "insertText env t h userID st = log_Printf (LogInsertFailed h (ErrOther m)) st \<and>
         user_tbl (insertText env t h userID st) = user_tbl st \<and>
         user_tbl (fst (makeRouter POST_text env r st)) = user_tbl st"
proof -
  have i: "insertText env t' h' u' st' = log_Printf (LogInsertFailed h' (ErrOther m)) st'"
    for t' h' u' st'
    using assms by (rule insertText_user_tbl_fault)
  have "user_tbl (fst (textHandler env r st')) = user_tbl st'" for st'
    by (auto simp: textHandler_def Let_def i sendJSONResponse_def json_Marshal_def
        userHasCredit_def split: prod.splits bool.splits sum.splits option.splits)
  then have "user_tbl (fst (makeRouter POST_text env r st)) = user_tbl st"
    by (auto simp: makeRouter.simps wrapHandler_def userIsAuthorized_def Let_def
        split: prod.splits bool.splits sum.splits sql_error.splits if_splits)
  then show ?thesis by (simp add: i)
qed

theorem insert_fault_no_debit_witness:
  "db_fault (test_env (fault_at InsertHashText)) InsertHashText = Some ''connection refused'' \<and>
   find_user jane_id
     (fst (makeRouter POST_text (test_env (fault_at InsertHashText))
             (test_request (Some jane_id) test_body) fixture)) =
     Some \<lparr>row_user_id = jane_id, row_name = ''Jane'', row_credit = Some 1000000\<rparr>"
proof -
  have a: "db_fault (test_env (fault_at InsertHashText)) InsertHashText = Some ''connection refused''"
    by (simp add: test_env_def fault_at_def)
  have f: "find_user jane_id fixture =
             Some \<lparr>row_user_id = jane_id, row_name = ''Jane'', row_credit = Some 1000000\<rparr>"
    by (simp add: fixture_defs)
  show ?thesis
    using insert_fault_no_debit [OF a, of test_text "sha256String test_text" jane_id fixture
        "test_request (Some jane_id) test_body"] a f
    by (simp add: find_user_def)
qed

text \<open>
  C8. \<open>textHandler\<close> checks the credit before it reads the body: for a caller whose credit
  is at most 0 the answer is 402, never 400, for every body (also an unreadable one or one
  that does not decode), and it is the same answer for every body and every decoder.
\<close>

theorem credit_check_before_parse:
  assumes row: "find_user (Header_Get r) st = Some row"
    and cr: "row_credit row = Some c" and le: "c \<le> 0"
  shows "status (snd (textHandler env (r\<lparr>req_body := b\<rparr>) st)) = StatusPaymentRequired \<and>
         status (snd (textHandler env (r\<lparr>req_body := b\<rparr>) st)) \<noteq> StatusBadRequest \<and>
         snd (textHandler (env\<lparr>json_Unmarshal := d\<rparr>) (r\<lparr>req_body := b\<rparr>) st) =
           snd (textHandler env r st)"
proof -
  have g: "Header_Get (r\<lparr>req_body := b\<rparr>) = Header_Get r"
    by (simp add: Header_Get_def)
  have n: "\<not> fst (userHasCredit env' (Header_Get r) st)" for env'
    using row cr le by (simp add: userHasCredit_iff)
  have t: "snd (textHandler env' r' st) =
             sendErrorMessage ''You are out of credit. Please pay us more money.''
               StatusPaymentRequired"
    if "Header_Get r' = Header_Get r" for env' r'
    using n [of env'] that by (simp add: textHandler_no_credit)
  show ?thesis
    by (simp add: t g sendErrorMessage_def StatusPaymentRequired_def StatusBadRequest_def)
qed

theorem credit_check_before_parse_witness:
  "find_user (Header_Get (test_request (Some petra_id) [])) fixture =
     Some \<lparr>row_user_id = petra_id, row_name = ''Petra'', row_credit = Some 0\<rparr> \<and>
   json_Unmarshal (test_env no_fault) ''{not json'' = None \<and>
   status (snd (textHandler (test_env no_fault) (test_request (Some petra_id) ''{not json'') fixture))
     = 402"
proof -
  let ?r = "test_request (Some petra_id) []"
  have f: "find_user (Header_Get ?r) fixture =
             Some \<lparr>row_user_id = petra_id, row_name = ''Petra'', row_credit = Some 0\<rparr>"
    by (simp add: fixture_defs)
  have u: "json_Unmarshal (test_env no_fault) ''{not json'' = None"
    by (simp add: test_env_def test_body_def)
  have e: "?r\<lparr>req_body := Inr ''{not json''\<rparr> = test_request (Some petra_id) ''{not json''"
    by (simp add: test_request_def)
  show ?thesis
    using credit_check_before_parse [OF f, of 0 "test_env no_fault" "Inr ''{not json''"] f u
    by (simp add: e StatusPaymentRequired_def)
qed

text \<open>
  C9. When the insertion into \<open>hash_text\<close> meets a storage fault, the caller (with credit,
  and a body that decodes to \<open>t\<close>) still receives 200 with the hash of \<open>t\<close>; the fault
  leaves one line in the log and nothing else; and the response is the same whatever the
  outcome of the insertion and of the debit.
\<close>

theorem insert_fault_still_200:
  assumes ins: "db_fault env InsertHashText = Some m"
    and sel: "db_fault env SelectCredit = None"
    and row: "find_user (Header_Get r) st = Some row"
    and cr: "row_credit row = Some c" and pos: "0 < c"
    and body: "req_body r = Inr b" and dec: "json_Unmarshal env b = Some t"
  shows "snd (textHandler env r st) =
           \<lparr>status = 200, content_type = Some ''application/json; charset=UTF-8'',
            resp_body = JsonBody [(''Hash'', JString (sha256String t))]\<rparr> \<and>
         fst (textHandler env r st) =
           log_Printf (LogInsertFailed (sha256String t) (ErrOther m)) st \<and>
         snd (textHandler (env\<lparr>db_fault := (db_fault env)(InsertHashText := f1, UpdateCredit := f2)\<rparr>)
                r st) = snd (textHandler env r st)"
proof -
  let ?env' = "env\<lparr>db_fault := (db_fault env)(InsertHashText := f1, UpdateCredit := f2)\<rparr>"
  have c: "fst (userHasCredit env (Header_Get r) st)"
    using sel row cr pos by (simp add: userHasCredit_iff)
  have c': "fst (userHasCredit ?env' (Header_Get r) st)"
    using sel row cr pos by (simp add: userHasCredit_iff)
  have dec': "json_Unmarshal ?env' b = Some t"
    using dec by simp
  note h = textHandler_credit [OF c body dec]
  note h' = textHandler_credit [OF c' body dec']
  show ?thesis
    by (simp add: h h' sendJSONResponse_snd sendJSONResponse_fst json_hashDocument
        insertText_user_tbl_fault [OF ins])
qed

theorem insert_fault_still_200_witness:
  "db_fault (test_env (fault_at InsertHashText)) InsertHashText = Some ''connection refused'' \<and>
   textHandler (test_env (fault_at InsertHashText)) (test_request (Some jane_id) test_body) fixture =
     (log_Printf (LogInsertFailed (sha256String test_text) (ErrOther ''connection refused'')) fixture,
      \<lparr>status = 200, content_type = Some ''application/json; charset=UTF-8'',
       resp_body = JsonBody [(''Hash'', JString (sha256String test_text))]\<rparr>)"
proof -
  let ?env = "test_env (fault_at InsertHashText)"
  let ?r = "test_request (Some jane_id) test_body"
  have a: "db_fault ?env InsertHashText = Some ''connection refused''"
    by (simp add: test_env_def fault_at_def)
  have s: "db_fault ?env SelectCredit = None"
    by (simp add: test_env_def fault_at_def)
  have f: "find_user (Header_Get ?r) fixture =
             Some \<lparr>row_user_id = jane_id, row_name = ''Jane'', row_credit = Some 1000000\<rparr>"
    by (simp add: fixture_defs)
  have b: "req_body ?r = Inr test_body"
    by (simp add: test_request_def)
  have d: "json_Unmarshal ?env test_body = Some test_text"
    by (simp add: test_env_def)
  show ?thesis
    using insert_fault_still_200 [OF a s f _ _ b d, of 1000000] a
    by (simp add: prod_eq_iff)
qed

text \<open>
  C10. When the credit lookup of \<open>textHandler\<close> fails, by a storage fault or because no
  row has the user id, the answer is the 402 of a user without credit, not 500 or 404.
\<close>

theorem credit_lookup_failure_402:
  assumes "db_fault env SelectCredit = Some m \<or> find_user (Header_Get r) st = None"
  shows "snd (textHandler env r st) =
           \<lparr>status = 402, content_type = Some ''text/plain; charset=UTF-8'',
            resp_body = TextBody ''You are out of credit. Please pay us more money.''\<rparr> \<and>
         status (snd (textHandler env r st)) \<noteq> StatusInternalServerError \<and>
         status (snd (textHandler env r st)) \<noteq> StatusNotFound"
proof -
  have "\<not> fst (userHasCredit env (Header_Get r) st)"
    using assms by (auto simp: userHasCredit_iff)
  then show ?thesis
    by (simp add: textHandler_no_credit out_of_credit_response
        StatusInternalServerError_def StatusNotFound_def)
qed

theorem credit_lookup_failure_402_witness:
  "db_fault (test_env (fault_at SelectCredit)) SelectCredit = Some ''connection refused'' \<and>
   find_user (Header_Get (test_request (Some ''foo'') test_body)) fixture = None \<and>
   status (snd (textHandler (test_env (fault_at SelectCredit))
                  (test_request (Some jane_id) test_body) fixture)) = 402 \<and>
   status (snd (textHandler (test_env no_fault) (test_request (Some ''foo'') test_body) fixture))
     = 402"
proof -
  have a: "db_fault (test_env (fault_at SelectCredit)) SelectCredit = Some ''connection refused''"
    by (simp add: test_env_def fault_at_def)
  have f: "find_user (Header_Get (test_request (Some ''foo'') test_body)) fixture = None"
    by (simp add: fixture_defs)
  show ?thesis
    using a f
      credit_lookup_failure_402 [of "test_env (fault_at SelectCredit)" "''connection refused''"
        "test_request (Some jane_id) test_body" fixture]
      credit_lookup_failure_402 [of "test_env no_fault" m "test_request (Some ''foo'') test_body"
        fixture]
    by simp
qed

end
